theory Spec2Isabelle
  imports Main
begin

section \<open>Python values and strings\<close>

text \<open>
  A Python \<open>str\<close> is modelled as the list of its code points; the model covers the
  code points below 256 (one \<open>char\<close> each), so \<open>length\<close> is Python's \<open>len\<close>.
\<close>

text \<open>
  The values that travel through the agent: JSON-like data, and \<open>POpaque\<close> for any other
  object (a float, a Decimal, a date), given by its type name and by what the code
  observes of it: \<open>bool()\<close>, \<open>str()\<close> and \<open>repr()\<close>. A dict is an association list
  in insertion order.
\<close>

datatype pyval =
    PNone
  | PBool bool
  | PInt int
  | PStr string
  | PList "pyval list"
  | PDict "(string \<times> pyval) list"
  | POpaque string bool string string

text \<open>The exceptions the code can raise, each with the text of \<open>str(e)\<close>.\<close>

datatype pyexc =
    KeyError string
  | IndexError string
  | TypeError string
  | AttributeError string
  | JSONDecodeError string

fun exc_str :: "pyexc \<Rightarrow> string" where
  "exc_str (KeyError m) = m"
| "exc_str (IndexError m) = m"
| "exc_str (TypeError m) = m"
| "exc_str (AttributeError m) = m"
| "exc_str (JSONDecodeError m) = m"

subsection \<open>String primitives\<close>

text \<open>\<open>s.startswith(p)\<close>\<close>

fun startswith :: "string \<Rightarrow> string \<Rightarrow> bool" where
  "startswith s [] = True"
| "startswith [] (p # ps) = False"
| "startswith (c # cs) (p # ps) = (c = p \<and> startswith cs ps)"

text \<open>\<open>tok in s\<close> for strings\<close>

fun str_contains :: "string \<Rightarrow> string \<Rightarrow> bool" where
  "str_contains [] tok = (tok = [])"
| "str_contains (c # cs) tok = (startswith (c # cs) tok \<or> str_contains cs tok)"

text \<open>
  \<open>s.replace(tok, '')\<close>: the non-overlapping occurrences of \<open>tok\<close> are removed in one
  scan from the left. (With an empty \<open>tok\<close> Python inserts the replacement between the
  characters; the replacement being empty, the string is unchanged.)
\<close>

function str_remove :: "string \<Rightarrow> string \<Rightarrow> string" where
  "str_remove tok [] = []"
| "str_remove tok (c # cs) =
     (if tok \<noteq> [] \<and> startswith (c # cs) tok
      then str_remove tok (drop (length tok) (c # cs))
      else c # str_remove tok cs)"
  by pat_completeness auto
termination
  by (relation "measure (\<lambda>(tok, s). length s)") auto


text \<open>\<open>str.isspace\<close> on one character (the whitespace code points below 256).\<close>

definition whitespace_chars :: "char list" where
  "whitespace_chars =
     [CHR 0x09, CHR 0x0A, CHR 0x0B, CHR 0x0C, CHR 0x0D, CHR 0x1C, CHR 0x1D, CHR 0x1E,
      CHR 0x1F, CHR 0x20, CHR 0x85, CHR 0xA0]"

definition is_space :: "char \<Rightarrow> bool" where
  "is_space c = (c \<in> set whitespace_chars)"

text \<open>\<open>s.strip()\<close>\<close>

definition py_strip :: "string \<Rightarrow> string" where
  "py_strip s = rev (dropWhile is_space (rev (dropWhile is_space s)))"

text \<open>\<open>s.split()\<close>: the maximal runs of non-whitespace characters.\<close>

fun split_ws :: "string \<Rightarrow> string \<Rightarrow> string list" where
  "split_ws cur [] = (if cur = [] then [] else [cur])"
| "split_ws cur (c # cs) =
     (if is_space c then (if cur = [] then split_ws [] cs else cur # split_ws [] cs)
      else split_ws (cur @ [c]) cs)"

definition py_split :: "string \<Rightarrow> string list" where
  "py_split s = split_ws [] s"

text \<open>\<open>sep.join(xs)\<close>\<close>

fun py_join :: "string \<Rightarrow> string list \<Rightarrow> string" where
  "py_join sep [] = []"
| "py_join sep [x] = x"
| "py_join sep (x # y # ys) = x @ sep @ py_join sep (y # ys)"

text \<open>
  Case mapping, for the code points below 256: the letters A to Z, 0xC0 to 0xD6 and 0xD8
  to 0xDE are upper case, with their lower-case forms 32 places up.
\<close>

definition upper_letters :: string where
  "upper_letters =
     ''ABCDEFGHIJKLMNOPQRSTUVWXYZ''
     @ [CHR 0xC0, CHR 0xC1, CHR 0xC2, CHR 0xC3, CHR 0xC4, CHR 0xC5, CHR 0xC6, CHR 0xC7, CHR 0xC8, CHR 0xC9, CHR 0xCA, CHR 0xCB, CHR 0xCC, CHR 0xCD, CHR 0xCE, CHR 0xCF, CHR 0xD0, CHR 0xD1, CHR 0xD2, CHR 0xD3, CHR 0xD4, CHR 0xD5, CHR 0xD6]
     @ [CHR 0xD8, CHR 0xD9, CHR 0xDA, CHR 0xDB, CHR 0xDC, CHR 0xDD, CHR 0xDE]"

definition lower_letters :: string where
  "lower_letters =
     ''abcdefghijklmnopqrstuvwxyz''
     @ [CHR 0xE0, CHR 0xE1, CHR 0xE2, CHR 0xE3, CHR 0xE4, CHR 0xE5, CHR 0xE6, CHR 0xE7, CHR 0xE8, CHR 0xE9, CHR 0xEA, CHR 0xEB, CHR 0xEC, CHR 0xED, CHR 0xEE, CHR 0xEF, CHR 0xF0, CHR 0xF1, CHR 0xF2, CHR 0xF3, CHR 0xF4, CHR 0xF5, CHR 0xF6]
     @ [CHR 0xF8, CHR 0xF9, CHR 0xFA, CHR 0xFB, CHR 0xFC, CHR 0xFD, CHR 0xFE]"

text \<open>\<open>c.lower()\<close> on one character.\<close>

definition lower_char :: "char \<Rightarrow> char" where
  "lower_char c = (case map_of (zip upper_letters lower_letters) c of Some d \<Rightarrow> d | None \<Rightarrow> c)"

text \<open>
  \<open>c.title()\<close> on one character: the upper-case form of a lower-case letter, and \<open>Ss\<close>
  for the sharp s (0xDF). The title case of 0xB5 and of 0xFF lies beyond code point 255:
  the two are left as they are here, and the properties of the formatter leave out the
  names that contain them (\<open>title_representable\<close>).
\<close>

definition title_char :: "char \<Rightarrow> string" where
  "title_char c =
     (if c = CHR 0xDF then ''Ss''
      else (case map_of (zip lower_letters upper_letters) c of Some d \<Rightarrow> [d] | None \<Rightarrow> [c]))"

definition title_representable :: "string \<Rightarrow> bool" where
  "title_representable s = (CHR 0xB5 \<notin> set s \<and> CHR 0xFF \<notin> set s)"

text \<open>The cased characters: the letters above, and 0xAA, 0xB5, 0xBA, 0xDF and 0xFF.\<close>

definition is_cased :: "char \<Rightarrow> bool" where
  "is_cased c =
     (c \<in> set upper_letters \<or> c \<in> set lower_letters
      \<or> c \<in> set [CHR 0xAA, CHR 0xB5, CHR 0xBA, CHR 0xDF, CHR 0xFF])"

text \<open>\<open>s.lower()\<close>\<close>

definition py_lower :: "string \<Rightarrow> string" where
  "py_lower s = map lower_char s"

text \<open>
  \<open>s.title()\<close>: a cased character is put in title case when it follows an uncased one (or
  starts the string) and in lower case when it follows a cased one.
\<close>

fun title_from :: "bool \<Rightarrow> string \<Rightarrow> string" where
  "title_from prev [] = []"
| "title_from prev (c # cs) =
     (if is_cased c then (if prev then [lower_char c] else title_char c) @ title_from True cs
      else c # title_from False cs)"

definition py_title :: "string \<Rightarrow> string" where
  "py_title s = title_from False s"

text \<open>\<open>key.replace('_', ' ').title()\<close>, the humanized form of a field name.\<close>

definition humanize :: "string \<Rightarrow> string" where
  "humanize h = py_title (map (\<lambda>c. if c = CHR ''_'' then CHR '' '' else c) h)"

text \<open>Decimal numerals, as \<open>str\<close> prints an \<open>int\<close>.\<close>

definition digit_char :: "nat \<Rightarrow> char" where
  "digit_char d = ''0123456789'' ! d"

function show_nat :: "nat \<Rightarrow> string" where
  "show_nat n = (if n < 10 then [digit_char n] else show_nat (n div 10) @ [digit_char (n mod 10)])"
  by pat_completeness auto
termination
  by (relation "measure id") auto

definition show_int :: "int \<Rightarrow> string" where
  "show_int i = (if i < 0 then CHR ''-'' # show_nat (nat (- i)) else show_nat (nat i))"

text \<open>\<open>c.isdigit()\<close> for the decimal digits, which are what the pattern \<open>\d\<close> matches below 256.\<close>

definition is_digit :: "char \<Rightarrow> bool" where
  "is_digit c = (c \<in> set ''0123456789'')"

subsection \<open>Truthiness, \<open>str\<close> and \<open>repr\<close>\<close>

fun py_truthy :: "pyval \<Rightarrow> bool" where
  "py_truthy PNone = False"
| "py_truthy (PBool b) = b"
| "py_truthy (PInt i) = (i \<noteq> 0)"
| "py_truthy (PStr s) = (s \<noteq> [])"
| "py_truthy (PList xs) = (xs \<noteq> [])"
| "py_truthy (PDict kvs) = (kvs \<noteq> [])"
| "py_truthy (POpaque ty b s r) = b"

fun py_type_name :: "pyval \<Rightarrow> string" where
  "py_type_name PNone = ''NoneType''"
| "py_type_name (PBool b) = ''bool''"
| "py_type_name (PInt i) = ''int''"
| "py_type_name (PStr s) = ''str''"
| "py_type_name (PList xs) = ''list''"
| "py_type_name (PDict kvs) = ''dict''"
| "py_type_name (POpaque ty b s r) = ty"

definition hex_digit :: "nat \<Rightarrow> char" where
  "hex_digit d = ''0123456789abcdef'' ! d"

text \<open>
  One character inside the \<open>repr\<close> of a string quoted with \<open>q\<close>: the quote and the
  backslash are escaped, tab, newline and carriage return have their letter, and every
  other non-printable code point (below 32, 127 to 160, 173) is written \<open>\xhh\<close>.
\<close>

definition repr_char :: "char \<Rightarrow> char \<Rightarrow> string" where
  "repr_char q c =
     (let n = (of_char c :: nat) in
      if c = q \<or> c = CHR 0x5C then [CHR 0x5C, c]
      else if c = CHR 0x09 then [CHR 0x5C, CHR ''t'']
      else if c = CHR 0x0A then [CHR 0x5C, CHR ''n'']
      else if c = CHR 0x0D then [CHR 0x5C, CHR ''r'']
      else if n < 32 \<or> (127 \<le> n \<and> n \<le> 160) \<or> n = 173
        then [CHR 0x5C, CHR ''x'', hex_digit (n div 16), hex_digit (n mod 16)]
      else [c])"

text \<open>
  \<open>repr\<close> of a string: single quotes, unless the string has a single quote and no double
  quote.
\<close>

definition repr_str :: "string \<Rightarrow> string" where
  "repr_str s =
     (let q = (if CHR 0x27 \<in> set s \<and> CHR 0x22 \<notin> set s then CHR 0x22 else CHR 0x27)
      in [q] @ concat (map (repr_char q) s) @ [q])"

fun py_repr :: "pyval \<Rightarrow> string" where
  "py_repr PNone = ''None''"
| "py_repr (PBool b) = (if b then ''True'' else ''False'')"
| "py_repr (PInt i) = show_int i"
| "py_repr (PStr s) = repr_str s"
| "py_repr (PList xs) = ''['' @ py_join '', '' (map py_repr xs) @ '']''"
| "py_repr (PDict kvs) =
     ''{'' @ py_join '', '' (map (\<lambda>(k, v). repr_str k @ '': '' @ py_repr v) kvs) @ ''}''"
| "py_repr (POpaque ty b s r) = r"

fun py_str :: "pyval \<Rightarrow> string" where
  "py_str (PStr s) = s"
| "py_str (POpaque ty b s r) = s"
| "py_str v = py_repr v"

subsection \<open>Dictionaries and exceptions\<close>

type_synonym pydict = "(string \<times> pyval) list"

text \<open>\<open>d.get(k)\<close>\<close>

definition dict_get :: "pydict \<Rightarrow> string \<Rightarrow> pyval option" where
  "dict_get d k = map_of d k"

text \<open>\<open>d[k] = v\<close>: an existing key keeps its place, a new key goes last.\<close>

fun dict_set :: "pydict \<Rightarrow> string \<Rightarrow> pyval \<Rightarrow> pydict" where
  "dict_set [] k v = [(k, v)]"
| "dict_set ((k', v') # d) k v = (if k' = k then (k, v) # d else (k', v') # dict_set d k v)"

text \<open>\<open>d[k]\<close>, raising \<open>KeyError\<close> on a missing key.\<close>

definition dict_item :: "pydict \<Rightarrow> string \<Rightarrow> pyexc + pyval" where
  "dict_item d k = (case dict_get d k of None \<Rightarrow> Inl (KeyError (repr_str k)) | Some v \<Rightarrow> Inr v)"

text \<open>Sequencing of a computation that may raise.\<close>

definition ebind :: "pyexc + 'a \<Rightarrow> ('a \<Rightarrow> pyexc + 'b) \<Rightarrow> pyexc + 'b" where
  "ebind m f = (case m of Inl e \<Rightarrow> Inl e | Inr x \<Rightarrow> f x)"

text \<open>\<open>s[0]\<close> on a string.\<close>

definition str_first :: "string \<Rightarrow> pyexc + char" where
  "str_first s = (case s of [] \<Rightarrow> Inl (IndexError ''string index out of range'') | c # _ \<Rightarrow> Inr c)"

text \<open>\<open>s[-n:]\<close>: the last \<open>n\<close> characters, or all of a shorter string.\<close>

definition str_last_n :: "nat \<Rightarrow> string \<Rightarrow> string" where
  "str_last_n n s = drop (length s - n) s"

section \<open>Tool name repair\<close>

definition bad_tokens :: "string list" where
  "bad_tokens =
     [''<|channel|>'', ''<|commentary|>'', ''commentary'', ''channel'', ''<|'', ''|>'']"

text \<open>\<open>ToolCallingAgent._sanitize_function_name\<close> on a string.\<close>

definition sanitize_function_name :: "string \<Rightarrow> string" where
  "sanitize_function_name raw_name =
     (if raw_name = [] then raw_name
      else fold str_remove bad_tokens raw_name)"

section \<open>PHI masking (the earlier variant, \<open>PHIMasker\<close>)\<close>

definition REDACTED :: string where
  "REDACTED = ''[REDACTED]''"

text \<open>\<open>PHIMasker.mask_name\<close>\<close>

definition mask_name :: "string \<Rightarrow> pyexc + string" where
  "mask_name name =
     (if name = [] \<or> py_strip name = [] then Inr REDACTED
      else
        (case py_split (py_strip name) of
           [] \<Rightarrow> Inr REDACTED
         | [p] \<Rightarrow> ebind (str_first p) (\<lambda>c. Inr (c # ''***''))
         | p # ps \<Rightarrow>
             ebind (str_first p) (\<lambda>c.
             ebind (str_first (last ps)) (\<lambda>d.
             Inr (c # ''*** '' @ d # ''***'')))))"

text \<open>\<open>PHIMasker.mask_mrn\<close>\<close>

definition mask_mrn :: "string \<Rightarrow> string" where
  "mask_mrn mrn =
     (if mrn = [] \<or> length mrn < 4 then ''****'' @ (if mrn \<noteq> [] then str_last_n 2 mrn else [])
      else ''****'' @ str_last_n 4 mrn)"

text \<open>\<open>PHIMasker.mask_phone\<close>; \<open>re.sub(r'\D', '', phone)\<close> keeps the digits.\<close>

definition mask_phone :: "string \<Rightarrow> string" where
  "mask_phone phone =
     (if phone = [] then REDACTED
      else
        (let digits = filter is_digit phone in
         if 10 \<le> length digits then ''('' @ take 3 digits @ '') ***-****''
         else ''***-****''))"

text \<open>
  \<open>PHIMasker.mask_email\<close>; \<open>email.split('@', 1)\<close> cuts at the first \<open>@\<close>, and
  \<open>local[0]\<close> raises on an empty local part.
\<close>

definition mask_email :: "string \<Rightarrow> pyexc + string" where
  "mask_email email =
     (if email = [] \<or> CHR ''@'' \<notin> set email then Inr REDACTED
      else
        (let local = takeWhile (\<lambda>c. c \<noteq> CHR ''@'') email;
             domain = tl (dropWhile (\<lambda>c. c \<noteq> CHR ''@'') email)
         in ebind (str_first local) (\<lambda>c.
              let masked_local =
                (if length local \<le> 2 then c # ''***'' else c # ''***'' @ [last local])
              in Inr (masked_local @ ''@'' @ domain))))"

text \<open>\<open>PHIMasker.mask_provider_name\<close>\<close>

definition mask_provider_name :: "string \<Rightarrow> pyexc + string" where
  "mask_provider_name name0 =
     (if name0 = [] \<or> py_strip name0 = [] then Inr REDACTED
      else
        (let name = (if startswith name0 ''Dr. '' then drop 4 name0 else name0) in
         case py_split (py_strip name) of
           [] \<Rightarrow> Inr REDACTED
         | [p] \<Rightarrow> Inr p
         | p # ps \<Rightarrow> ebind (str_first p) (\<lambda>c. Inr (c # ''*** '' @ last ps))))"

text \<open>\<open>PHIMasker.should_mask_column\<close>: whether the column holds PHI, and the mask to use.\<close>

definition should_mask_column :: "string \<Rightarrow> bool \<times> string option" where
  "should_mask_column column_name =
     (let column_lower = py_lower column_name in
      if str_contains column_lower ''patient_name'' \<or> column_lower = ''name''
        then (True, Some ''name'')
      else if str_contains column_lower ''mrn'' \<or> column_lower = ''patient_mrn''
        then (True, Some ''mrn'')
      else if str_contains column_lower ''phone'' \<or> str_contains column_lower ''contact''
        then (True, Some ''phone'')
      else if str_contains column_lower ''email''
        then (True, Some ''email'')
      else if str_contains column_lower ''provider_name'' \<or> str_contains column_lower ''pcp_name''
        then (True, Some ''provider'')
      else (False, None))"

text \<open>The body of the loop over \<open>result.items()\<close> in \<open>mask_result\<close>: the value stored under \<open>key\<close>.\<close>

definition mask_field :: "string \<Rightarrow> pyval \<Rightarrow> pyexc + pyval" where
  "mask_field key val =
     (case should_mask_column key of (should_mask, mask_type) \<Rightarrow>
        if should_mask \<and> py_truthy val then
          (if mask_type = Some ''name'' then ebind (mask_name (py_str val)) (\<lambda>m. Inr (PStr m))
           else if mask_type = Some ''mrn'' then Inr (PStr (mask_mrn (py_str val)))
           else if mask_type = Some ''phone'' then Inr (PStr (mask_phone (py_str val)))
           else if mask_type = Some ''email'' then ebind (mask_email (py_str val)) (\<lambda>m. Inr (PStr m))
           else if mask_type = Some ''provider''
             then ebind (mask_provider_name (py_str val)) (\<lambda>m. Inr (PStr m))
           else Inr val)
        else Inr val)"

text \<open>The loop itself: \<open>masked\<close> is filled key by key, and an exception ends it.\<close>

fun mask_items :: "pydict \<Rightarrow> pydict \<Rightarrow> pyexc + pydict" where
  "mask_items masked [] = Inr masked"
| "mask_items masked ((key, val) # rest) =
     ebind (mask_field key val) (\<lambda>v. mask_items (dict_set masked key v) rest)"

text \<open>A list comprehension \<open>[f(x) for x in xs]\<close> whose body may raise or run out of fuel.\<close>

fun map_results :: "('a \<Rightarrow> (pyexc + 'b) option) \<Rightarrow> 'a list \<Rightarrow> (pyexc + 'b list) option" where
  "map_results f [] = Some (Inr [])"
| "map_results f (x # xs) =
     (case f x of
        None \<Rightarrow> None
      | Some (Inl e) \<Rightarrow> Some (Inl e)
      | Some (Inr y) \<Rightarrow>
          (case map_results f xs of
             None \<Rightarrow> None
           | Some (Inl e) \<Rightarrow> Some (Inl e)
           | Some (Inr ys) \<Rightarrow> Some (Inr (y # ys))))"

text \<open>
  \<open>PHIMasker.mask_result\<close> with \<open>PHI_MASKING_ENABLED\<close> as a parameter. The library
  functions \<open>json.loads\<close> (\<open>Inl\<close> the message of its \<open>JSONDecodeError\<close>) and \<open>json.dumps\<close>
  are parameters.
  The recursion goes through list items and through parsed strings; the first argument
  bounds its depth, and \<open>None\<close> means the bound was reached.
\<close>

fun mask_result ::
  "nat \<Rightarrow> bool \<Rightarrow> (string \<Rightarrow> string + pyval) \<Rightarrow> (pyval \<Rightarrow> string) \<Rightarrow> pyval \<Rightarrow> (pyexc + pyval) option"
where
  "mask_result 0 enabled loads dumps result = None"
| "mask_result (Suc n) enabled loads dumps result =
     (if \<not> enabled then Some (Inr result)
      else
        (case result of
           PStr s \<Rightarrow>
             (case loads s of
                Inl msg \<Rightarrow> Some (Inr (PStr s))
              | Inr data \<Rightarrow>
                  (case mask_result n enabled loads dumps data of
                     None \<Rightarrow> None
                   | Some (Inl e) \<Rightarrow> Some (Inl e)
                   | Some (Inr masked_data) \<Rightarrow> Some (Inr (PStr (dumps masked_data)))))
         | PList items \<Rightarrow>
             (case map_results (mask_result n enabled loads dumps) items of
                None \<Rightarrow> None
              | Some (Inl e) \<Rightarrow> Some (Inl e)
              | Some (Inr masked) \<Rightarrow> Some (Inr (PList masked)))
         | PDict kvs \<Rightarrow>
             (case mask_items [] kvs of
                Inl e \<Rightarrow> Some (Inl e)
              | Inr masked \<Rightarrow> Some (Inr (PDict masked)))
         | _ \<Rightarrow> Some (Inr result)))"



section \<open>Result formatting (\<open>agent.py\<close>)\<close>

definition NO_RESULTS :: string where
  "NO_RESULTS = ''No results found.''"

definition newline :: string where
  "newline = [CHR 0x0A]"

text \<open>\<open>ToolCallingAgent._format_dict_result\<close>\<close>

definition format_dict_result :: "pydict \<Rightarrow> string" where
  "format_dict_result result =
     py_join newline (map (\<lambda>(key, val). humanize key @ '': '' @ py_str val) result)"

text \<open>\<open>obj.attr\<close> on a value that has no such attribute.\<close>

definition no_attribute :: "pyval \<Rightarrow> string \<Rightarrow> pyexc" where
  "no_attribute v a =
     AttributeError ([CHR 0x27] @ py_type_name v @ [CHR 0x27] @ '' object has no attribute ''
                     @ [CHR 0x27] @ a @ [CHR 0x27])"

text \<open>One data row: \<open>[str(row.get(h, ''))[:80] for h in headers]\<close>, joined.\<close>

definition table_cell :: "pydict \<Rightarrow> string \<Rightarrow> string" where
  "table_cell row h = take 80 (py_str (case dict_get row h of None \<Rightarrow> PStr [] | Some v \<Rightarrow> v))"

definition table_row :: "string list \<Rightarrow> pyval \<Rightarrow> pyexc + string" where
  "table_row headers row =
     (case row of
        PDict d \<Rightarrow> Inr (''| '' @ py_join '' | '' (map (table_cell d) headers) @ '' |'')
      | _ \<Rightarrow> Inl (no_attribute row ''get''))"

fun table_rows :: "string list \<Rightarrow> pyval list \<Rightarrow> pyexc + string list" where
  "table_rows headers [] = Inr []"
| "table_rows headers (row # rest) =
     ebind (table_row headers row) (\<lambda>l.
     ebind (table_rows headers rest) (\<lambda>ls. Inr (l # ls)))"

definition table_header :: "string list \<Rightarrow> string" where
  "table_header headers = ''| '' @ py_join '' | '' (map humanize headers) @ '' |''"

definition table_separator :: "string list \<Rightarrow> string" where
  "table_separator headers = ''|'' @ py_join ''|'' (map (\<lambda>_. ''---'') headers) @ ''|''"

definition table_footer :: "nat \<Rightarrow> string list" where
  "table_footer n =
     [newline @ ''**Total: '' @ show_nat n @ '' results**'',
      newline @ ''### Next Best Actions:'',
      ''Please provide 3-5 specific action items based on this data.'']"

text \<open>The list \<open>lines\<close> that \<open>_format_table\<close> builds for a non-empty \<open>data\<close>.\<close>

definition table_lines :: "pyval list \<Rightarrow> pyexc + string list" where
  "table_lines data =
     (case data of
        [] \<Rightarrow> Inr []
      | first # _ \<Rightarrow>
          (case first of
             PDict d0 \<Rightarrow>
               (let headers = map fst d0 in
                ebind (table_rows headers data) (\<lambda>rows.
                Inr ([table_header headers, table_separator headers] @ rows
                     @ table_footer (length data))))
           | _ \<Rightarrow> Inl (no_attribute first ''keys'')))"

text \<open>\<open>ToolCallingAgent._format_table\<close>\<close>

definition format_table :: "pyval list \<Rightarrow> pyexc + string" where
  "format_table data =
     (if data = [] then Inr NO_RESULTS
      else ebind (table_lines data) (\<lambda>lines. Inr (py_join newline lines)))"

text \<open>
  The bullet of \<open>_format_list_result\<close> is U+2022, outside the modelled code points; the
  character 0x95 stands for it.
\<close>

definition bullet :: string where
  "bullet = [CHR 0x95, CHR '' '']"

text \<open>\<open>ToolCallingAgent._format_list_result\<close>\<close>

definition format_list_result :: "pyval list \<Rightarrow> pyexc + string" where
  "format_list_result result =
     (case result of
        [] \<Rightarrow> Inr NO_RESULTS
      | first # _ \<Rightarrow>
          (case first of
             PDict _ \<Rightarrow> format_table result
           | _ \<Rightarrow> Inr (py_join newline (map (\<lambda>item. bullet @ py_str item) result))))"

section \<open>Tools and the agent's state\<close>

text \<open>
  \<open>ToolInfo\<close>. The executor takes the keyword arguments and returns the tool's result, or
  raises.
\<close>

record ToolInfo =
  name :: string
  spec :: pyval
  exec_fn :: "pydict \<Rightarrow> pyexc + pyval"

text \<open>
  The required parameters a tool declares: \<open>spec['function']['parameters']['required']\<close>
  of its OpenAI function schema.
\<close>

definition declared_required :: "ToolInfo \<Rightarrow> pyval list" where
  "declared_required t =
     (case spec t of
        PDict sp \<Rightarrow>
          (case dict_get sp ''function'' of
             Some (PDict fn) \<Rightarrow>
               (case dict_get fn ''parameters'' of
                  Some (PDict ps) \<Rightarrow>
                    (case dict_get ps ''required'' of Some (PList req) \<Rightarrow> req | _ \<Rightarrow> [])
                | _ \<Rightarrow> [])
           | _ \<Rightarrow> [])
      | _ \<Rightarrow> [])"

text \<open>
  \<open>getattr(tool_info, a)\<close>, \<open>None\<close> where it raises \<open>AttributeError\<close>: a \<open>ToolInfo\<close> has
  its three declared fields, and its pydantic base class defines no attribute
  \<open>parameters\<close>.
\<close>

definition ToolInfo_getattr :: "ToolInfo \<Rightarrow> string \<Rightarrow> pyval option" where
  "ToolInfo_getattr t a =
     (if a = ''name'' then Some (PStr (name t))
      else if a = ''spec'' then Some (spec t)
      else if a = ''exec_fn'' then Some (POpaque ''function'' True ''<function>'' ''<function>'')
      else None)"

text \<open>
  \<open>getattr(obj, 'required', [])\<close>: none of the modelled values has an attribute
  \<open>required\<close> (a dict has the key, not the attribute), so the default is returned.
\<close>

definition getattr_required :: "pyval \<Rightarrow> string list" where
  "getattr_required obj = []"

text \<open>
  The agent's mutable state: \<open>_functions_called\<close>, the records sent to
  \<open>AgentLogger.log_error\<close> (kind and message) and to \<open>AgentLogger.log_query\<close> (query,
  functions, success, error), and two traces that the code does not keep
  and the properties speak about: every invocation of an executor, and every call of the
  model with the conversation it was given.
\<close>

record agent_state =
  functions_called :: "pyval list"
  error_log :: "(string \<times> string) list"
  query_log :: "(string \<times> pyval list \<times> bool \<times> string option) list"
  exec_calls :: "(string \<times> pydict) list"
  llm_calls :: "pydict list list"

definition initial_state :: agent_state where
  "initial_state =
     \<lparr>functions_called = [], error_log = [], query_log = [], exec_calls = [], llm_calls = []\<rparr>"

definition log_error :: "string \<Rightarrow> string \<Rightarrow> agent_state \<Rightarrow> agent_state" where
  "log_error error_type error_message st = st\<lparr>error_log := error_log st @ [(error_type, error_message)]\<rparr>"

text \<open>
  The registry \<open>_tools_dict\<close> maps names to tools. A key that is not a string is never
  found; a list or a dict cannot be hashed.
\<close>

type_synonym registry = "string \<Rightarrow> ToolInfo option"

definition registry_get :: "registry \<Rightarrow> pyval \<Rightarrow> pyexc + ToolInfo option" where
  "registry_get tools k =
     (case k of
        PStr s \<Rightarrow> Inr (tools s)
      | PList _ \<Rightarrow> Inl (TypeError (''unhashable type: '' @ [CHR 0x27] @ ''list'' @ [CHR 0x27]))
      | PDict _ \<Rightarrow> Inl (TypeError (''unhashable type: '' @ [CHR 0x27] @ ''dict'' @ [CHR 0x27]))
      | _ \<Rightarrow> Inr None)"

text \<open>\<open>self._tools_dict[tool_name]\<close>\<close>

definition registry_item :: "registry \<Rightarrow> pyval \<Rightarrow> pyexc + (string \<times> ToolInfo)" where
  "registry_item tools k =
     ebind (registry_get tools k) (\<lambda>r.
       case (k, r) of
         (PStr s, Some t) \<Rightarrow> Inr (s, t)
       | _ \<Rightarrow> Inl (KeyError (py_repr k)))"

definition INSTRUCTION :: string where
  "INSTRUCTION = newline @ newline @ ''[INSTRUCTION: After presenting this data, you MUST add a '### Next Best Actions:' section with 3-5 specific, actionable recommendations based on this data. Be concrete and clinical in your recommendations.]''"

text \<open>
  The call \<open>exec_fn(**args)\<close>: \<open>args\<close> must be a mapping. (The interpreter puts the
  callee's name in front of the message.)
\<close>

definition call_exec_fn ::
  "string \<Rightarrow> ToolInfo \<Rightarrow> pyval \<Rightarrow> agent_state \<Rightarrow> agent_state \<times> (pyexc + pyval)" where
  "call_exec_fn tool_name t args st =
     (case args of
        PDict kwargs \<Rightarrow> (st\<lparr>exec_calls := exec_calls st @ [(tool_name, kwargs)]\<rparr>, exec_fn t kwargs)
      | _ \<Rightarrow> (st, Inl (TypeError (''argument after ** must be a mapping, not '' @ py_type_name args))))"

text \<open>The formatting half of \<open>execute_tool\<close>.\<close>

definition format_result :: "pyval \<Rightarrow> pyexc + string" where
  "format_result result =
     ebind (case result of
              PDict d \<Rightarrow> Inr (format_dict_result d)
            | PList xs \<Rightarrow> format_list_result xs
            | _ \<Rightarrow> Inr (py_str result))
       (\<lambda>formatted.
          Inr (case result of
                 PDict d \<Rightarrow> if d \<noteq> [] then formatted @ INSTRUCTION else formatted
               | PList xs \<Rightarrow> if xs \<noteq> [] then formatted @ INSTRUCTION else formatted
               | _ \<Rightarrow> formatted))"

text \<open>\<open>ToolCallingAgent.execute_tool\<close> (\<open>agent.py\<close>)\<close>

definition execute_tool ::
  "registry \<Rightarrow> pyval \<Rightarrow> pyval \<Rightarrow> agent_state \<Rightarrow> agent_state \<times> (pyexc + string)" where
  "execute_tool tools tool_name args st =
     (let st1 = st\<lparr>functions_called := functions_called st @ [tool_name]\<rparr> in
      case registry_item tools tool_name of
        Inl e \<Rightarrow> (st1, Inl e)
      | Inr (nm, t) \<Rightarrow>
          (case call_exec_fn nm t args st1 of
             (st2, Inl e) \<Rightarrow> (st2, Inl e)
           | (st2, Inr result) \<Rightarrow> (st2, format_result result)))"

section \<open>Handling one tool call (\<open>agent.py\<close>)\<close>

type_synonym message = pydict

text \<open>A \<open>ResponsesAgentStreamEvent\<close>: its type and its item.\<close>

datatype event = StreamEvent string message

definition ITEM_DONE :: string where
  "ITEM_DONE = ''response.output_item.done''"

text \<open>
  The item constructors of the \<open>ResponsesAgent\<close> base class (mlflow), as that library
  defines them.
\<close>

definition create_function_call_output_item :: "pyval \<Rightarrow> string \<Rightarrow> message" where
  "create_function_call_output_item call_id output =
     [(''type'', PStr ''function_call_output''), (''call_id'', call_id), (''output'', PStr output)]"

definition create_text_output_item :: "string \<Rightarrow> string \<Rightarrow> message" where
  "create_text_output_item text_content item_id =
     [(''id'', PStr item_id),
      (''content'', PList [PDict [(''text'', PStr text_content), (''type'', PStr ''output_text'')]]),
      (''role'', PStr ''assistant''),
      (''type'', PStr ''message'')]"

text \<open>
  The call \<open>self._sanitize_function_name(raw_name)\<close> on the value found under \<open>name\<close>:
  a falsy value is returned as it is, and a truthy value that is not a string has no
  \<open>replace\<close>.
\<close>

definition sanitize_call :: "pyval \<Rightarrow> pyexc + pyval" where
  "sanitize_call raw_name =
     (case raw_name of
        PStr s \<Rightarrow> Inr (PStr (sanitize_function_name s))
      | _ \<Rightarrow> if py_truthy raw_name then Inl (no_attribute raw_name ''replace'') else Inr raw_name)"

text \<open>The call \<open>json.loads(tool_call["arguments"])\<close>; the payload must be text.\<close>

definition loads_call :: "(string \<Rightarrow> string + pyval) \<Rightarrow> pyval \<Rightarrow> pyexc + pyval" where
  "loads_call loads payload =
     (case payload of
        PStr s \<Rightarrow> (case loads s of Inl msg \<Rightarrow> Inl (JSONDecodeError msg) | Inr v \<Rightarrow> Inr v)
      | _ \<Rightarrow> Inl (TypeError (''the JSON object must be str, bytes or bytearray, not ''
                               @ py_type_name payload)))"

text \<open>\<open>{k: v for k, v in args.items() if k and k.strip()}\<close>, when \<open>args\<close> is a dict.\<close>

definition drop_empty_keys :: "pyval \<Rightarrow> pyval" where
  "drop_empty_keys args =
     (case args of
        PDict kvs \<Rightarrow> PDict (filter (\<lambda>(k, v). k \<noteq> [] \<and> py_strip k \<noteq> []) kvs)
      | _ \<Rightarrow> args)"

definition NOT_FOUND :: string where
  "NOT_FOUND = ''Error: Function not found. Please rephrase your query.''"

definition PARAMS_REQUIRED :: string where
  "PARAMS_REQUIRED = ''Error: This function requires parameters. Please provide: ''"

text \<open>
  The check made when \<open>args\<close> is falsy: \<open>Some\<close> the parameter-missing text where the
  handler returns early with it, \<open>None\<close> where it goes on to the lookup.
\<close>

definition required_check :: "registry \<Rightarrow> pyval \<Rightarrow> pyexc + string option" where
  "required_check tools clean_name =
     ebind (registry_get tools clean_name) (\<lambda>r.
       case r of
         None \<Rightarrow> Inr None
       | Some tool_info \<Rightarrow>
           (case ToolInfo_getattr tool_info ''parameters'' of
              None \<Rightarrow> Inr None
            | Some parameters \<Rightarrow>
                (let required_params = getattr_required parameters in
                 if required_params \<noteq> []
                 then Inr (Some (PARAMS_REQUIRED @ py_join '', '' required_params))
                 else Inr None)))"

text \<open>The \<open>try\<close> block of \<open>handle_tool_call\<close>: the text of the result, or the exception.\<close>

definition tool_call_body ::
  "(string \<Rightarrow> string + pyval) \<Rightarrow> registry \<Rightarrow> message \<Rightarrow> agent_state
     \<Rightarrow> agent_state \<times> (pyexc + string)" where
  "tool_call_body loads tools tool_call st =
     (case dict_item tool_call ''name'' of
        Inl e \<Rightarrow> (st, Inl e)
      | Inr raw_name \<Rightarrow>
     (case sanitize_call raw_name of
        Inl e \<Rightarrow> (st, Inl e)
      | Inr clean_name \<Rightarrow>
     (case ebind (dict_item tool_call ''arguments'') (loads_call loads) of
        Inl e \<Rightarrow> (st, Inl e)
      | Inr parsed \<Rightarrow>
     (let args = drop_empty_keys parsed in
      case (if \<not> py_truthy args then required_check tools clean_name else Inr None) of
        Inl e \<Rightarrow> (st, Inl e)
      | Inr (Some missing) \<Rightarrow> (st, Inr missing)
      | Inr None \<Rightarrow>
     (case registry_get tools clean_name of
        Inl e \<Rightarrow> (st, Inl e)
      | Inr None \<Rightarrow> (st, Inr NOT_FOUND)
      | Inr (Some _) \<Rightarrow> execute_tool tools clean_name args st)))))"

text \<open>
  The \<open>except\<close> clause and the tail shared by both variants: a caught exception is logged
  (reading \<open>tool_call["name"]\<close> again) and turned into text; then one
  \<open>function_call_output\<close> item is appended and sent out. An exception that escapes
  leaves the conversation as it was.
\<close>

definition finish_tool_call ::
  "message \<Rightarrow> message list \<Rightarrow> agent_state \<times> (pyexc + string)
     \<Rightarrow> message list \<times> agent_state \<times> (pyexc + event)" where
  "finish_tool_call tool_call messages body =
     (case body of (st1, r) \<Rightarrow>
        (case (case r of
                 Inr result \<Rightarrow> (st1, Inr result)
               | Inl e \<Rightarrow>
                   (case dict_item tool_call ''name'' of
                      Inl e' \<Rightarrow> (st1, Inl e')
                    | Inr _ \<Rightarrow>
                        (log_error ''tool_call_error'' (exc_str e) st1,
                         Inr (''Error executing tool: '' @ exc_str e))))
         of
           (st2, Inl e) \<Rightarrow> (messages, st2, Inl e)
         | (st2, Inr result) \<Rightarrow>
             (case dict_item tool_call ''call_id'' of
                Inl e \<Rightarrow> (messages, st2, Inl e)
              | Inr call_id \<Rightarrow>
                  (let tool_call_output = create_function_call_output_item call_id result
                   in (messages @ [tool_call_output], st2,
                       Inr (StreamEvent ITEM_DONE tool_call_output))))))"

text \<open>\<open>ToolCallingAgent.handle_tool_call\<close> (\<open>agent.py\<close>)\<close>

definition handle_tool_call ::
  "(string \<Rightarrow> string + pyval) \<Rightarrow> registry \<Rightarrow> message \<Rightarrow> message list \<Rightarrow> agent_state
     \<Rightarrow> message list \<times> agent_state \<times> (pyexc + event)" where
  "handle_tool_call loads tools tool_call messages st =
     finish_tool_call tool_call messages (tool_call_body loads tools tool_call st)"

section \<open>Handling one tool call (the earlier variant, \<open>caregaps_driver.py\<close>)\<close>

text \<open>\<open>execute_tool\<close> of the earlier variant: no formatting (the masking is in the executor).\<close>

definition execute_tool_driver ::
  "registry \<Rightarrow> pyval \<Rightarrow> pyval \<Rightarrow> agent_state \<Rightarrow> agent_state \<times> (pyexc + pyval)" where
  "execute_tool_driver tools tool_name args st =
     (let st1 = st\<lparr>functions_called := functions_called st @ [tool_name]\<rparr> in
      case registry_item tools tool_name of
        Inl e \<Rightarrow> (st1, Inl e)
      | Inr (nm, t) \<Rightarrow> call_exec_fn nm t args st1)"

definition tool_call_body_driver ::
  "(string \<Rightarrow> string + pyval) \<Rightarrow> registry \<Rightarrow> message \<Rightarrow> agent_state
     \<Rightarrow> agent_state \<times> (pyexc + string)" where
  "tool_call_body_driver loads tools tool_call st =
     (case ebind (dict_item tool_call ''arguments'') (loads_call loads) of
        Inl e \<Rightarrow> (st, Inl e)
      | Inr args \<Rightarrow>
     (case dict_item tool_call ''name'' of
        Inl e \<Rightarrow> (st, Inl e)
      | Inr tool_name \<Rightarrow>
     (case execute_tool_driver tools tool_name args st of
        (st1, Inl e) \<Rightarrow> (st1, Inl e)
      | (st1, Inr result) \<Rightarrow> (st1, Inr (py_str result)))))"

definition handle_tool_call_driver ::
  "(string \<Rightarrow> string + pyval) \<Rightarrow> registry \<Rightarrow> message \<Rightarrow> message list \<Rightarrow> agent_state
     \<Rightarrow> message list \<times> agent_state \<times> (pyexc + event)" where
  "handle_tool_call_driver loads tools tool_call messages st =
     finish_tool_call tool_call messages (tool_call_body_driver loads tools tool_call st)"

section \<open>The orchestration loop\<close>

datatype outcome = Finished | Exhausted | Raised pyexc

text \<open>
  The model's turn, \<open>output_to_responses_items_stream(chunks=self.call_llm(messages),
  aggregator=messages)\<close>, is an oracle: given the conversation, the items it appends and
  the events it sends out.
\<close>

type_synonym llm_turn = "message list \<Rightarrow> message list \<times> event list"

type_synonym tool_handler =
  "message \<Rightarrow> message list \<Rightarrow> agent_state \<Rightarrow> message list \<times> agent_state \<times> (pyexc + event)"

text \<open>
  The \<open>for iteration in range(max_iter)\<close> loop of \<open>call_and_run_tools\<close>, on the number
  of iterations left. \<open>Exhausted\<close> is the loop running out; \<open>Finished\<close> is its \<open>return\<close>.
\<close>

datatype action = Stop | RunTool | AskModel

text \<open>The \<open>if\<close>/\<open>elif\<close>/\<open>else\<close> on the last message, at the head of every iteration.\<close>

definition next_action :: "message \<Rightarrow> action" where
  "next_action last_msg =
     (if dict_get last_msg ''role'' = Some (PStr ''assistant'') then Stop
      else if dict_get last_msg ''type'' = Some (PStr ''function_call'') then RunTool
      else AskModel)"

fun tool_loop ::
  "tool_handler \<Rightarrow> llm_turn \<Rightarrow> nat \<Rightarrow> message list \<Rightarrow> agent_state \<Rightarrow> event list
     \<Rightarrow> message list \<times> agent_state \<times> event list \<times> outcome" where
  "tool_loop handler llm 0 messages st evs = (messages, st, evs, Exhausted)"
| "tool_loop handler llm (Suc n) messages st evs =
     (if messages = [] then (messages, st, evs, Raised (IndexError ''list index out of range''))
      else
        (let last_msg = last messages in
         case next_action last_msg of
           Stop \<Rightarrow> (messages, st, evs, Finished)
         | RunTool \<Rightarrow>
             (case handler last_msg messages st of
                (messages', st', Inl e) \<Rightarrow> (messages', st', evs, Raised e)
              | (messages', st', Inr ev) \<Rightarrow> tool_loop handler llm n messages' st' (evs @ [ev]))
         | AskModel \<Rightarrow>
             (case llm messages of
                (items, evs') \<Rightarrow>
                  tool_loop handler llm n (messages @ items)
                    (st\<lparr>llm_calls := llm_calls st @ [messages]\<rparr>) (evs @ evs'))))"

definition APOLOGY :: string where
  "APOLOGY = ''I apologize, but I'm having trouble completing this request. Please try rephrasing or breaking it into simpler questions.''"

text \<open>What follows the loop when it runs out; \<open>uid\<close> is the \<open>str(uuid4())\<close> drawn there.\<close>

definition after_loop ::
  "string \<Rightarrow> nat \<Rightarrow> message list \<times> agent_state \<times> event list \<times> outcome
     \<Rightarrow> message list \<times> agent_state \<times> event list \<times> outcome" where
  "after_loop uid max_iter r =
     (case r of
        (messages, st, evs, Exhausted) \<Rightarrow>
          (messages,
           log_error ''max_iterations'' (''Reached max iterations ('' @ show_nat max_iter @ '')'') st,
           evs @ [StreamEvent ITEM_DONE (create_text_output_item APOLOGY uid)],
           Exhausted)
      | _ \<Rightarrow> r)"

text \<open>The history limit at the head of \<open>call_and_run_tools\<close> (\<open>agent.py\<close>).\<close>

definition truncate_history :: "message list \<Rightarrow> message list" where
  "truncate_history messages =
     (if 7 < length messages then
        (let system_prompt =
               (if dict_get (messages ! 0) ''role'' = Some (PStr ''system'')
                then Some (messages ! 0) else None);
             recent_messages = drop (length messages - 6) messages
         in case system_prompt of
              Some m \<Rightarrow> if m \<noteq> [] then [m] @ recent_messages else recent_messages
            | None \<Rightarrow> recent_messages)
      else messages)"

text \<open>\<open>ToolCallingAgent.call_and_run_tools\<close> (\<open>agent.py\<close>; \<open>max_iter\<close> defaults to 10).\<close>

definition call_and_run_tools ::
  "(string \<Rightarrow> string + pyval) \<Rightarrow> registry \<Rightarrow> llm_turn \<Rightarrow> string \<Rightarrow> message list \<Rightarrow> nat
     \<Rightarrow> agent_state \<Rightarrow> message list \<times> agent_state \<times> event list \<times> outcome" where
  "call_and_run_tools loads tools llm uid messages max_iter st =
     after_loop uid max_iter
       (tool_loop (handle_tool_call loads tools) llm max_iter (truncate_history messages) st [])"

text \<open>\<open>call_and_run_tools\<close> of the earlier variant (\<open>max_iter\<close> defaults to 5; no history limit).\<close>

definition call_and_run_tools_driver ::
  "(string \<Rightarrow> string + pyval) \<Rightarrow> registry \<Rightarrow> llm_turn \<Rightarrow> string \<Rightarrow> message list \<Rightarrow> nat
     \<Rightarrow> agent_state \<Rightarrow> message list \<times> agent_state \<times> event list \<times> outcome" where
  "call_and_run_tools_driver loads tools llm uid messages max_iter st =
     after_loop uid max_iter
       (tool_loop (handle_tool_call_driver loads tools) llm max_iter messages st [])"

section \<open>Requests and \<open>predict\<close> (\<open>agent.py\<close>)\<close>

text \<open>
  A request is a dict, with the values under \<open>input\<close> and \<open>custom_inputs\<close> where it has
  them, or a \<open>ResponsesAgentRequest\<close>, with its input items (as \<open>model_dump\<close> gives them)
  and its \<open>custom_inputs\<close>.
\<close>

datatype request =
    DictRequest "message list option" "pyval option"
  | ModelRequest "message list" "pyval option"

definition system_message :: "string \<Rightarrow> message" where
  "system_message prompt = [(''role'', PStr ''system''), (''content'', PStr prompt)]"

text \<open>
  \<open>ToolCallingAgent.predict_stream\<close>. The constant \<open>SYSTEM_PROMPT\<close> and the library
  function \<open>to_chat_completions_input\<close> are parameters.
\<close>

definition predict_stream ::
  "(message list \<Rightarrow> message list) \<Rightarrow> string \<Rightarrow> (string \<Rightarrow> string + pyval) \<Rightarrow> registry \<Rightarrow> llm_turn
     \<Rightarrow> string \<Rightarrow> request \<Rightarrow> agent_state \<Rightarrow> message list \<times> agent_state \<times> event list \<times> outcome" where
  "predict_stream to_cc SYSTEM_PROMPT loads tools llm uid req st =
     (case (case req of
              DictRequest inp _ \<Rightarrow> Inr (case inp of None \<Rightarrow> [] | Some items \<Rightarrow> items)
            | ModelRequest items _ \<Rightarrow>
                if items = [] then Inl (IndexError ''list index out of range'')
                else Inr (to_cc items))
      of
        Inl e \<Rightarrow> ([], st, [], Raised e)
      | Inr messages \<Rightarrow>
          call_and_run_tools loads tools llm uid
            (if SYSTEM_PROMPT \<noteq> [] then system_message SYSTEM_PROMPT # messages else messages)
            10 st)"

text \<open>The items of the events of type \<open>response.output_item.done\<close>.\<close>

definition done_items :: "event list \<Rightarrow> message list" where
  "done_items evs = concat (map (\<lambda>ev. case ev of StreamEvent ty item \<Rightarrow> if ty = ITEM_DONE then [item] else []) evs)"

definition request_custom_inputs :: "request \<Rightarrow> pyval option" where
  "request_custom_inputs req = (case req of DictRequest _ c \<Rightarrow> c | ModelRequest _ c \<Rightarrow> c)"

text \<open>
  \<open>ToolCallingAgent.predict\<close> (\<open>agent.py\<close>): the response (output items and custom
  outputs), or the exception that the stream raised.
\<close>

definition predict ::
  "(message list \<Rightarrow> message list) \<Rightarrow> string \<Rightarrow> (string \<Rightarrow> string + pyval) \<Rightarrow> registry \<Rightarrow> llm_turn
     \<Rightarrow> string \<Rightarrow> request \<Rightarrow> agent_state \<Rightarrow> agent_state \<times> (pyexc + message list \<times> pyval option)" where
  "predict to_cc SYSTEM_PROMPT loads tools llm uid req st =
     (case predict_stream to_cc SYSTEM_PROMPT loads tools llm uid req st of
        (messages, st', evs, Raised e) \<Rightarrow> (st', Inl e)
      | (messages, st', evs, _) \<Rightarrow> (st', Inr (done_items evs, request_custom_inputs req)))"

section \<open>The input guard (\<open>InputValidator\<close>)\<close>

text \<open>
  The regular expressions of \<open>DANGEROUS_PATTERNS\<close> need literals, \<open>\s\<close>, \<open>.\<close>, \<open>*\<close>, \<open>+\<close>
  and \<open>$\<close>. They are matched with \<open>re.IGNORECASE\<close> and without \<open>re.DOTALL\<close> or
  \<open>re.MULTILINE\<close>: a letter matches in either case, \<open>.\<close> matches all but the newline,
  and \<open>$\<close> holds at the end of the text and before a newline that ends it.
\<close>

datatype atom = Lit char | Space | AnyChar

datatype rx = Zero | Eps | Eos | Atom atom | Seq rx rx | Alt rx rx | Star rx

fun atom_match :: "atom \<Rightarrow> char \<Rightarrow> bool" where
  "atom_match (Lit p) c = (lower_char c = lower_char p)"
| "atom_match Space c = is_space c"
| "atom_match AnyChar c = (c \<noteq> CHR 0x0A)"

text \<open>Whether \<open>r\<close> matches the empty text at a position where \<open>$\<close> holds (\<open>eos\<close>) or not.\<close>

fun nullable :: "bool \<Rightarrow> rx \<Rightarrow> bool" where
  "nullable eos Zero = False"
| "nullable eos Eps = True"
| "nullable eos Eos = eos"
| "nullable eos (Atom a) = False"
| "nullable eos (Seq r s) = (nullable eos r \<and> nullable eos s)"
| "nullable eos (Alt r s) = (nullable eos r \<or> nullable eos s)"
| "nullable eos (Star r) = True"

text \<open>What is left of \<open>r\<close> after the character \<open>c\<close>, read at a position where \<open>$\<close> holds or not.\<close>

fun deriv :: "bool \<Rightarrow> char \<Rightarrow> rx \<Rightarrow> rx" where
  "deriv eos c Zero = Zero"
| "deriv eos c Eps = Zero"
| "deriv eos c Eos = Zero"
| "deriv eos c (Atom a) = (if atom_match a c then Eps else Zero)"
| "deriv eos c (Seq r s) =
     (if nullable eos r then Alt (Seq (deriv eos c r) s) (deriv eos c s)
      else Seq (deriv eos c r) s)"
| "deriv eos c (Alt r s) = Alt (deriv eos c r) (deriv eos c s)"
| "deriv eos c (Star r) = Seq (deriv eos c r) (Star r)"

definition at_eos :: "string \<Rightarrow> bool" where
  "at_eos s = (s = [] \<or> s = [CHR 0x0A])"

text \<open>\<open>re.match\<close>: the pattern matches some prefix of the text.\<close>

fun rx_match :: "rx \<Rightarrow> string \<Rightarrow> bool" where
  "rx_match r [] = nullable True r"
| "rx_match r (c # cs) =
     (nullable (at_eos (c # cs)) r \<or> rx_match (deriv (at_eos (c # cs)) c r) cs)"

text \<open>\<open>re.search\<close>: the pattern matches from some position of the text.\<close>

fun re_search :: "rx \<Rightarrow> string \<Rightarrow> bool" where
  "re_search r [] = rx_match r []"
| "re_search r (c # cs) = (rx_match r (c # cs) \<or> re_search r cs)"

definition rx_lit :: "string \<Rightarrow> rx" where
  "rx_lit s = foldr (\<lambda>c r. Seq (Atom (Lit c)) r) s Eps"

definition rx_plus :: "rx \<Rightarrow> rx" where
  "rx_plus r = Seq r (Star r)"

definition rx_seq :: "rx list \<Rightarrow> rx" where
  "rx_seq rs = foldr Seq rs Eps"

definition DANGEROUS_PATTERNS :: "rx list" where
  "DANGEROUS_PATTERNS =
     [rx_seq [rx_lit '';'', Star (Atom Space), rx_lit ''drop'', rx_plus (Atom Space), rx_lit ''table''],
      rx_seq [rx_lit '';'', Star (Atom Space), rx_lit ''delete'', rx_plus (Atom Space), rx_lit ''from''],
      rx_seq [rx_lit '';'', Star (Atom Space), rx_lit ''update'', rx_plus (Atom Space),
              Star (Atom AnyChar), rx_plus (Atom Space), rx_lit ''set''],
      rx_seq [rx_lit ''union'', rx_plus (Atom Space), rx_lit ''select''],
      rx_seq [rx_lit ''--'', Star (Atom Space), Eos],
      rx_seq [rx_lit ''/*'', Star (Atom AnyChar), rx_lit ''*/'']]"

definition TOO_LONG :: string where
  "TOO_LONG = ''Input too long (max 1000 characters)''"

text \<open>\<open>InputValidator.is_safe_input\<close>\<close>

definition is_safe_input :: "string \<Rightarrow> bool \<times> string" where
  "is_safe_input user_input =
     (if user_input = [] then (False, ''Empty input'')
      else if 1000 < length user_input then (False, TOO_LONG)
      else if list_ex (\<lambda>pattern. re_search pattern user_input) DANGEROUS_PATTERNS
        then (False, ''Potentially dangerous input detected'')
      else (True, ''Valid''))"

text \<open>\<open>InputValidator.sanitize_input\<close>: the control characters go, then the outer whitespace.\<close>

definition is_control :: "char \<Rightarrow> bool" where
  "is_control c = (let n = (of_char c :: nat) in n \<le> 31 \<or> (127 \<le> n \<and> n \<le> 159))"

definition sanitize_input :: "string \<Rightarrow> string" where
  "sanitize_input user_input = py_strip (filter (\<lambda>c. \<not> is_control c) user_input)"

section \<open>\<open>predict\<close> of the earlier variant (\<open>caregaps_driver.py\<close>)\<close>

definition log_query :: "string \<Rightarrow> pyval list \<Rightarrow> bool \<Rightarrow> string option \<Rightarrow> agent_state \<Rightarrow> agent_state" where
  "log_query user_query fns success err st =
     st\<lparr>query_log := query_log st @ [(user_query, fns, success, err)]\<rparr>"

text \<open>
  \<open>predict_stream\<close> of the earlier variant, on the input items of the request. The two
  flags are the constants \<open>SHOW_PHI_WARNING\<close> and \<open>PHI_MASKING_ENABLED\<close>; the text of the
  privacy notice and the identifier drawn for it are parameters.
\<close>

definition predict_stream_driver ::
  "(message list \<Rightarrow> message list) \<Rightarrow> string \<Rightarrow> bool \<Rightarrow> bool \<Rightarrow> string \<Rightarrow> string
     \<Rightarrow> (string \<Rightarrow> string + pyval) \<Rightarrow> registry \<Rightarrow> llm_turn
     \<Rightarrow> string \<Rightarrow> message list \<Rightarrow> agent_state \<Rightarrow> message list \<times> agent_state \<times> event list \<times> outcome" where
  "predict_stream_driver to_cc SYSTEM_PROMPT SHOW_PHI_WARNING PHI_MASKING_ENABLED notice notice_id
     loads tools llm uid items st =
     (let messages = to_cc items in
      case call_and_run_tools_driver loads tools llm uid
             (if SYSTEM_PROMPT \<noteq> [] then system_message SYSTEM_PROMPT # messages else messages)
             5 st
      of
        (ms, st', evs, Raised e) \<Rightarrow> (ms, st', evs, Raised e)
      | (ms, st', evs, out) \<Rightarrow>
          (if SHOW_PHI_WARNING \<and> PHI_MASKING_ENABLED
           then (ms, st', evs @ [StreamEvent ITEM_DONE (create_text_output_item notice notice_id)], out)
           else (ms, st', evs, out)))"

definition CANNOT_PROCESS :: string where
  "CANNOT_PROCESS = ''I cannot process this request: ''"

definition PREDICT_ERROR :: string where
  "PREDICT_ERROR = ''I apologize, but I encountered an error processing your request. Please try again or contact support.''"

text \<open>
  The query that \<open>predict\<close> validates: \<open>str(last_input.content)\<close> of the last input item,
  or the empty text. An item has the attribute \<open>content\<close> where its dump has the key.
\<close>

definition last_user_query :: "message list \<Rightarrow> string" where
  "last_user_query items =
     (if items \<noteq> [] then
        (case dict_get (last items) ''content'' of Some c \<Rightarrow> py_str c | None \<Rightarrow> [])
      else [])"

text \<open>
  \<open>predict\<close> of the earlier variant, on a \<open>ResponsesAgentRequest\<close> (input items and
  \<open>custom_inputs\<close>).
\<close>

definition predict_driver ::
  "(message list \<Rightarrow> message list) \<Rightarrow> string \<Rightarrow> bool \<Rightarrow> bool \<Rightarrow> string \<Rightarrow> string
     \<Rightarrow> (string \<Rightarrow> string + pyval) \<Rightarrow> registry \<Rightarrow> llm_turn
     \<Rightarrow> string \<Rightarrow> message list \<Rightarrow> pyval option \<Rightarrow> agent_state
     \<Rightarrow> agent_state \<times> (message list \<times> pyval option)" where
  "predict_driver to_cc SYSTEM_PROMPT SHOW_PHI_WARNING PHI_MASKING_ENABLED notice notice_id
     loads tools llm uid items custom_inputs st =
     (let st0 = st\<lparr>functions_called := []\<rparr>;
          user_query = last_user_query items
      in case is_safe_input user_query of
           (is_valid, validation_message) \<Rightarrow>
             if \<not> is_valid then
               (log_error ''input_validation_failed'' validation_message st0,
                ([create_text_output_item (CANNOT_PROCESS @ validation_message) uid], custom_inputs))
             else
               (let sanitized = sanitize_input user_query in
                case predict_stream_driver to_cc SYSTEM_PROMPT SHOW_PHI_WARNING PHI_MASKING_ENABLED
                       notice notice_id loads tools llm uid items st0
                of
                  (ms, st', evs, Raised e) \<Rightarrow>
                    (log_query sanitized (functions_called st') False (Some (exc_str e)) st',
                     ([create_text_output_item PREDICT_ERROR uid], custom_inputs))
                | (ms, st', evs, out) \<Rightarrow>
                    (log_query sanitized (functions_called st') True None st',
                     (done_items evs, custom_inputs))))"

section \<open>Scenarios\<close>

text \<open>
  Concrete inputs for the examples below: a record as a tool returns it, JSON texts with
  the values that \<open>json.loads\<close> and \<open>json.dumps\<close> take on them, a registered tool, and
  scripted model turns.
\<close>

definition sample_record :: pydict where
  "sample_record =
     [(''patient_name'', PStr ''John Smith''), (''patient_mrn'', PStr ''123456789''),
      (''gap_type'', PStr ''Immunization'')]"


definition sample_record_json :: string where
  \<open>sample_record_json =
     ''{"patient_name": "John Smith", "patient_mrn": "123456789", "gap_type": "Immunization"}''\<close>


definition NOT_JSON_MESSAGE :: string where
  "NOT_JSON_MESSAGE = ''Expecting value: line 1 column 1 (char 0)''"

text \<open>
  \<open>json.loads\<close> on the payloads of the scenarios: the empty object, the sample record, the
  list of that one record; any other text used below (\<open>not json\<close>) is not JSON.
\<close>

definition sample_loads :: "string \<Rightarrow> string + pyval" where
  "sample_loads s =
     (if s = ''{}'' then Inr (PDict [])
      else if s = sample_record_json then Inr (PDict sample_record)
      else if s = ''['' @ sample_record_json @ '']'' then Inr (PList [PDict sample_record])
      else Inl NOT_JSON_MESSAGE)"


text \<open>
  A registered tool that declares one required parameter, and the registry holding it.
\<close>

definition sample_tool :: ToolInfo where
  "sample_tool =
     \<lparr>name = ''dev_kiddo__silver__get_patient_gaps'',
      spec = PDict [(''type'', PStr ''function''),
                    (''function'',
                     PDict [(''name'', PStr ''dev_kiddo__silver__get_patient_gaps''),
                            (''parameters'',
                             PDict [(''type'', PStr ''object''),
                                    (''required'', PList [PStr ''patient_id''])])])],
      exec_fn = (\<lambda>kwargs. Inr (PList []))\<rparr>"

definition sample_tools :: registry where
  "sample_tools s = (if s = ''dev_kiddo__silver__get_patient_gaps'' then Some sample_tool else None)"

text \<open>A \<open>function_call\<close> item as the \<open>ResponsesAgent\<close> base class (mlflow) builds it.\<close>

definition create_function_call_item :: "string \<Rightarrow> string \<Rightarrow> string \<Rightarrow> string \<Rightarrow> message" where
  "create_function_call_item item_id call_id fn_name arguments =
     [(''type'', PStr ''function_call''), (''id'', PStr item_id), (''call_id'', PStr call_id),
      (''name'', PStr fn_name), (''arguments'', PStr arguments)]"

definition user_message :: "string \<Rightarrow> message" where
  "user_message content = [(''role'', PStr ''user''), (''content'', PStr content)]"

definition sample_call :: message where
  "sample_call = create_function_call_item ''fc_1'' ''call_1'' ''dev_kiddo__silver__get_patient_gaps'' ''{}''"

definition sample_answer :: message where
  "sample_answer = create_text_output_item ''The patient has no open gaps.'' ''msg_1''"

text \<open>
  Model turns: one that answers at once; and one that asks for the tool while the
  conversation is shorter than \<open>k\<close> messages and answers after that.
\<close>

definition answering_llm :: llm_turn where
  "answering_llm messages = ([sample_answer], [StreamEvent ITEM_DONE sample_answer])"

definition scripted_llm :: "nat \<Rightarrow> llm_turn" where
  "scripted_llm k messages =
     (if length messages < k then ([sample_call], [StreamEvent ITEM_DONE sample_call])
      else ([sample_answer], [StreamEvent ITEM_DONE sample_answer]))"

definition injection_text :: string where
  "injection_text = [CHR 0x27] @ ''; DROP TABLE patients; --''"

text \<open>
  A call of a tool that is not registered, its name carrying decoding artifacts, with a
  given argument payload; and a \<open>function_call\<close> item that has no \<open>call_id\<close>.
\<close>

definition hallucinated_call :: "string \<Rightarrow> message" where
  "hallucinated_call payload =
     create_function_call_item ''fc_1'' ''call_1'' ''get_everything<|channel|>commentary'' payload"

definition call_without_id :: message where
  "call_without_id =
     [(''type'', PStr ''function_call''), (''name'', PStr ''dev_kiddo__silver__get_patient_gaps''),
      (''arguments'', PStr ''{}'')]"

text \<open>
  A second record, with a long value, a number and a field the first record lacks; and a
  call of an unregistered tool under a clean name.
\<close>

definition sample_long_record :: pydict where
  "sample_long_record =
     [(''patient_name'',
       PStr ''Well child visit overdue since the last recorded encounter; outreach attempted twice by phone''),
      (''gap_type'', PInt 7), (''days_open'', PNone)]"

definition unregistered_call :: "string \<Rightarrow> message" where
  "unregistered_call payload = create_function_call_item ''fc_1'' ''call_1'' ''get_everything'' payload"

section \<open>Properties\<close>

lemma str_remove_absent:
  "\<not> str_contains s tok \<Longrightarrow> str_remove tok s = s"
  by (induction tok s rule: str_remove.induct) auto

text \<open>
  C4 (as stated, refuted): repair is not idempotent. Removing \<open><|\<close> from
  \<open>chan<|nel\<close> leaves \<open>channel\<close>, which a second repair deletes.
\<close>

theorem sanitize_not_idempotent:
  "sanitize_function_name (sanitize_function_name ''chan<|nel'')
     \<noteq> sanitize_function_name ''chan<|nel''"
  by (simp add: sanitize_function_name_def bad_tokens_def)

text \<open>
  C4 (amended): a name in which none of the bad tokens occurs is returned unchanged, and
  \<open>get_stats<|channel|>commentary\<close> is repaired to \<open>get_stats\<close>.
\<close>

theorem sanitize_clean_unchanged:
  "((\<forall>tok \<in> set bad_tokens. \<not> str_contains s tok) \<longrightarrow> sanitize_function_name s = s)
   \<and> sanitize_function_name ''get_stats<|channel|>commentary'' = ''get_stats''"
  by (simp add: sanitize_function_name_def bad_tokens_def str_remove_absent)

theorem sanitize_clean_unchanged_witness:
  "\<not> (\<exists>tok \<in> set bad_tokens. str_contains ''get_stats'' tok)
   \<and> sanitize_function_name ''get_stats'' = ''get_stats''"
  using sanitize_clean_unchanged [of "''get_stats''"]
  by (simp add: bad_tokens_def)

lemma dict_get_nonempty: "dict_get m k = Some v \<Longrightarrow> m \<noteq> []"
  by (auto simp: dict_get_def)

subsection \<open>History truncation\<close>

text \<open>
  C5: a message list longer than 7 is cut, before the loop starts, to its leading system
  message (when the first message has role system) followed by its last 6 messages, so 7
  messages at most remain and the system message survives; without a leading system
  message the last 6 remain; a list of 7 messages or fewer is unchanged.
\<close>

theorem truncate_history_window:
  "(7 < length messages \<and> dict_get (messages ! 0) ''role'' = Some (PStr ''system'')
      \<longrightarrow> truncate_history messages = messages ! 0 # drop (length messages - 6) messages
          \<and> length (truncate_history messages) = 7)
   \<and> (7 < length messages \<and> dict_get (messages ! 0) ''role'' \<noteq> Some (PStr ''system'')
      \<longrightarrow> truncate_history messages = drop (length messages - 6) messages
          \<and> length (truncate_history messages) = 6)
   \<and> (length messages \<le> 7 \<longrightarrow> truncate_history messages = messages)
   \<and> length (truncate_history messages) \<le> max 7 (length messages)
   \<and> call_and_run_tools loads tools llm uid messages max_iter st =
       after_loop uid max_iter
         (tool_loop (handle_tool_call loads tools) llm max_iter (truncate_history messages) st [])"
  by (auto simp: truncate_history_def call_and_run_tools_def Let_def dest: dict_get_nonempty)

theorem truncate_history_window_witness:
  "7 < length (system_message ''S'' # map (\<lambda>c. [(''role'', PStr ''user''), (''content'', PStr [c])]) ''abcdefgh'')
   \<and> truncate_history
        (system_message ''S'' # map (\<lambda>c. [(''role'', PStr ''user''), (''content'', PStr [c])]) ''abcdefgh'')
      = system_message ''S'' # map (\<lambda>c. [(''role'', PStr ''user''), (''content'', PStr [c])]) ''cdefgh''
   \<and> truncate_history (map (\<lambda>c. [(''role'', PStr ''user''), (''content'', PStr [c])]) ''abcdefgh'')
      = map (\<lambda>c. [(''role'', PStr ''user''), (''content'', PStr [c])]) ''cdefgh''
   \<and> truncate_history [system_message ''S''] = [system_message ''S'']"
  using truncate_history_window
          [of "system_message ''S'' # map (\<lambda>c. [(''role'', PStr ''user''), (''content'', PStr [c])]) ''abcdefgh''"]
        truncate_history_window
          [of "map (\<lambda>c. [(''role'', PStr ''user''), (''content'', PStr [c])]) ''abcdefgh''"]
        truncate_history_window [of "[system_message ''S'']"]
  by (simp add: system_message_def dict_get_def)

subsection \<open>PHI masking\<close>









subsection \<open>Result formatting\<close>

lemma table_rows_records:
  "table_rows hs (map PDict recs)
     = Inr (map (\<lambda>d. ''| '' @ py_join '' | '' (map (table_cell d) hs) @ '' |'') recs)"
  by (induction recs) (simp_all add: table_row_def ebind_def)

lemma lower_char_not_underscore: "c \<noteq> CHR ''_'' \<Longrightarrow> lower_char c \<noteq> CHR ''_''"
proof -
  assume c: "c \<noteq> CHR ''_''"
  show ?thesis
  proof (cases "map_of (zip upper_letters lower_letters) c")
    case None
    with c show ?thesis by (simp add: lower_char_def)
  next
    case (Some d)
    then have "d \<in> set lower_letters"
      by (meson map_of_SomeD set_zip_rightD)
    then have "d \<noteq> CHR ''_''" by (auto simp: lower_letters_def)
    with Some show ?thesis by (simp add: lower_char_def)
  qed
qed

lemma title_char_no_underscore: "c \<noteq> CHR ''_'' \<Longrightarrow> CHR ''_'' \<notin> set (title_char c)"
proof -
  assume c: "c \<noteq> CHR ''_''"
  show ?thesis
  proof (cases "map_of (zip lower_letters upper_letters) c")
    case None
    with c show ?thesis by (simp add: title_char_def)
  next
    case (Some d)
    then have "d \<in> set upper_letters"
      by (meson map_of_SomeD set_zip_rightD)
    then have "d \<noteq> CHR ''_''" by (auto simp: upper_letters_def)
    with Some show ?thesis by (simp add: title_char_def)
  qed
qed

lemma title_from_no_underscore: "CHR ''_'' \<notin> set s \<Longrightarrow> CHR ''_'' \<notin> set (title_from b s)"
proof (induction s arbitrary: b)
  case Nil
  then show ?case by simp
next
  case (Cons c cs)
  then have c: "c \<noteq> CHR ''_''" and cs: "CHR ''_'' \<notin> set cs" by auto
  have l: "lower_char c \<noteq> CHR ''_''" using c by (rule lower_char_not_underscore)
  have t: "CHR ''_'' \<notin> set (title_char c)" using c by (rule title_char_no_underscore)
  have r: "\<And>b'. CHR ''_'' \<notin> set (title_from b' cs)" using Cons.IH cs by blast
  show ?case using c l t r by auto
qed

lemma humanize_no_underscore: "CHR ''_'' \<notin> set (humanize h)"
  unfolding humanize_def py_title_def by (rule title_from_no_underscore) auto

text \<open>
  C7: a non-empty list of N records is rendered as the header row of the humanized field
  names of the first record (underscores turned into spaces, every word in title case,
  as for \<open>patient_name\<close> and \<open>days_open\<close>), one separator row, N data rows whose cells are
  the values as text cut to 80 characters (empty for a missing field), the footer line
  with \<open>Total: N results\<close> and the two closing lines, as on the two sample records; an empty
  list is rendered as \<open>No results found.\<close> The header is stated for the field names
  whose title case stays below code point 256.
\<close>

theorem format_table_shape:
  "format_list_result [] = Inr NO_RESULTS
   \<and> format_table [] = Inr NO_RESULTS
   \<and> (\<exists>header.
         format_list_result (map PDict (r # rs))
           = Inr (py_join newline
               ([header,
                 ''|'' @ py_join ''|'' (map (\<lambda>_. ''---'') (map fst r)) @ ''|'']
                @ map (\<lambda>d. ''| '' @ py_join '' | '' (map (table_cell d) (map fst r)) @ '' |'') (r # rs)
                @ [newline @ ''**Total: '' @ show_nat (length (r # rs)) @ '' results**'',
                   newline @ ''### Next Best Actions:'',
                   ''Please provide 3-5 specific action items based on this data.'']))
         \<and> (list_all title_representable (map fst r) \<longrightarrow>
              header = ''| '' @ py_join '' | '' (map humanize (map fst r)) @ '' |''))
   \<and> length (map (\<lambda>d. ''| '' @ py_join '' | '' (map (table_cell d) (map fst r)) @ '' |'') (r # rs))
       = length (r # rs)
   \<and> table_cell d h = take 80 (py_str (case dict_get d h of None \<Rightarrow> PStr [] | Some v \<Rightarrow> v))
   \<and> length (table_cell d h) \<le> 80
   \<and> humanize h = py_title (map (\<lambda>c. if c = CHR ''_'' then CHR '' '' else c) h)
   \<and> CHR ''_'' \<notin> set (humanize h)
   \<and> humanize ''patient_name'' = ''Patient Name''
   \<and> humanize ''days_open'' = ''Days Open''
   \<and> format_list_result (map PDict [sample_record, sample_long_record])
       = Inr (''| Patient Name | Patient Mrn | Gap Type |'' @ newline
              @ ''|---|---|---|'' @ newline
              @ ''| John Smith | 123456789 | Immunization |'' @ newline
              @ ''| Well child visit overdue since the last recorded encounter; outreach attempted t |  | 7 |''
              @ newline @ newline
              @ ''**Total: 2 results**'' @ newline @ newline
              @ ''### Next Best Actions:'' @ newline
              @ ''Please provide 3-5 specific action items based on this data.'')"
proof -
  have rows: "table_rows (map fst r) (PDict r # map PDict rs)
     = Inr (map (\<lambda>d. ''| '' @ py_join '' | '' (map (table_cell d) (map fst r)) @ '' |'') (r # rs))"
    using table_rows_records [of "map fst r" "r # rs"] by simp
  have "format_list_result (map PDict (r # rs))
       = Inr (py_join newline
               ([table_header (map fst r), table_separator (map fst r)]
                @ map (\<lambda>d. ''| '' @ py_join '' | '' (map (table_cell d) (map fst r)) @ '' |'') (r # rs)
                @ table_footer (length (r # rs))))"
    by (simp add: format_list_result_def format_table_def table_lines_def rows ebind_def Let_def
          del: table_rows.simps)
  then have gen: "format_list_result (map PDict (r # rs))
          = Inr (py_join newline
               ([''| '' @ py_join '' | '' (map humanize (map fst r)) @ '' |'',
                 ''|'' @ py_join ''|'' (map (\<lambda>_. ''---'') (map fst r)) @ ''|'']
                @ map (\<lambda>d. ''| '' @ py_join '' | '' (map (table_cell d) (map fst r)) @ '' |'') (r # rs)
                @ [newline @ ''**Total: '' @ show_nat (length (r # rs)) @ '' results**'',
                   newline @ ''### Next Best Actions:'',
                   ''Please provide 3-5 specific action items based on this data.'']))"
    by (simp add: table_header_def table_separator_def table_footer_def)
  have e1: "format_list_result [] = Inr NO_RESULTS" by (simp add: format_list_result_def)
  have e2: "format_table [] = Inr NO_RESULTS" by (simp add: format_table_def)
  have c1: "table_cell d h = take 80 (py_str (case dict_get d h of None \<Rightarrow> PStr [] | Some v \<Rightarrow> v))"
    by (simp add: table_cell_def)
  have c2: "length (table_cell d h) \<le> 80" by (simp add: table_cell_def)
  have h1: "humanize h = py_title (map (\<lambda>c. if c = CHR ''_'' then CHR '' '' else c) h)"
    by (simp add: humanize_def)
  have h2: "CHR ''_'' \<notin> set (humanize h)" by (rule humanize_no_underscore)
  have h3: "humanize ''patient_name'' = ''Patient Name''" by code_simp
  have h4: "humanize ''days_open'' = ''Days Open''" by code_simp
  have ex: "format_list_result (map PDict [sample_record, sample_long_record])
       = Inr (''| Patient Name | Patient Mrn | Gap Type |'' @ newline
              @ ''|---|---|---|'' @ newline
              @ ''| John Smith | 123456789 | Immunization |'' @ newline
              @ ''| Well child visit overdue since the last recorded encounter; outreach attempted t |  | 7 |''
              @ newline @ newline
              @ ''**Total: 2 results**'' @ newline @ newline
              @ ''### Next Best Actions:'' @ newline
              @ ''Please provide 3-5 specific action items based on this data.'')"
    by code_simp
  have len: "length (map (\<lambda>d. ''| '' @ py_join '' | '' (map (table_cell d) (map fst r)) @ '' |'') (r # rs))
       = length (r # rs)" by simp
  from gen have gen': "\<exists>header.
         format_list_result (map PDict (r # rs))
           = Inr (py_join newline
               ([header,
                 ''|'' @ py_join ''|'' (map (\<lambda>_. ''---'') (map fst r)) @ ''|'']
                @ map (\<lambda>d. ''| '' @ py_join '' | '' (map (table_cell d) (map fst r)) @ '' |'') (r # rs)
                @ [newline @ ''**Total: '' @ show_nat (length (r # rs)) @ '' results**'',
                   newline @ ''### Next Best Actions:'',
                   ''Please provide 3-5 specific action items based on this data.'']))
         \<and> (list_all title_representable (map fst r) \<longrightarrow>
              header = ''| '' @ py_join '' | '' (map humanize (map fst r)) @ '' |'')"
    by blast
  from e1 e2 gen' len c1 c2 h1 h2 h3 h4 ex show ?thesis by blast
qed

theorem format_table_shape_witness:
  "list_all title_representable (map fst sample_record)
   \<and> (\<exists>header.
         format_list_result (map PDict (sample_record # [sample_long_record]))
           = Inr (py_join newline
               ([header,
                 ''|'' @ py_join ''|'' (map (\<lambda>_. ''---'') (map fst sample_record)) @ ''|'']
                @ map (\<lambda>d. ''| '' @ py_join '' | '' (map (table_cell d) (map fst sample_record)) @ '' |'')
                    (sample_record # [sample_long_record])
                @ [newline @ ''**Total: '' @ show_nat (length (sample_record # [sample_long_record]))
                     @ '' results**'',
                   newline @ ''### Next Best Actions:'',
                   ''Please provide 3-5 specific action items based on this data.'']))
         \<and> header = ''| '' @ py_join '' | '' (map humanize (map fst sample_record)) @ '' |'')"
proof -
  have h: "list_all title_representable (map fst sample_record)" by code_simp
  from format_table_shape [of sample_record "[sample_long_record]"] h show ?thesis by blast
qed

subsection \<open>The frame of the masking\<close>

lemma dict_set_append: "k \<notin> fst ` set d \<Longrightarrow> dict_set d k v = d @ [(k, v)]"
  by (induction d) auto

lemma mask_items_frame:
  "distinct (map fst kvs) \<Longrightarrow> fst ` set acc \<inter> fst ` set kvs = {} \<Longrightarrow> mask_items acc kvs = Inr res \<Longrightarrow>
     \<exists>out. res = acc @ out \<and> list_all2 (\<lambda>(k, v) (k', v'). k' = k \<and> mask_field k v = Inr v') kvs out"
proof (induction kvs arbitrary: acc)
  case Nil
  then show ?case by simp
next
  case (Cons kv kvs)
  obtain k v where kv: "kv = (k, v)" by (cases kv)
  from Cons.prems(3) kv obtain v' where
    mf: "mask_field k v = Inr v'" and rest: "mask_items (dict_set acc k v') kvs = Inr res"
    by (auto simp: ebind_def split: sum.splits)
  have notin: "k \<notin> fst ` set acc" using Cons.prems(2) kv by auto
  then have ds: "dict_set acc k v' = acc @ [(k, v')]" by (rule dict_set_append)
  have "fst ` set (acc @ [(k, v')]) \<inter> fst ` set kvs = {}"
    using Cons.prems(1,2) kv by (auto simp: image_iff)
  with Cons.IH [of "acc @ [(k, v')]"] Cons.prems(1) rest ds
  obtain out where "res = (acc @ [(k, v')]) @ out"
    and "list_all2 (\<lambda>(k, v) (k', v'). k' = k \<and> mask_field k v = Inr v') kvs out"
    by auto
  then show ?case using kv mf
    by (intro exI [of _ "(k, v') # out"]) simp
qed

lemma mask_field_frame:
  assumes "\<not> fst (should_mask_column k) \<or> \<not> py_truthy v"
  shows "mask_field k v = Inr v"
proof -
  obtain b t where smc: "should_mask_column k = (b, t)"
    by (cases "should_mask_column k")
  with assms have cond: "(b \<and> py_truthy v) = False" by auto
  show ?thesis
    unfolding mask_field_def smc by (simp only: prod.case cond if_False)
qed

text \<open>
  Where \<open>mask_result\<close> returns on a dict, the result is a dict with the same keys in the
  same order, and the value of a key that is not a PHI column, and every falsy value, is
  the one given.
\<close>

lemma mask_result_frame:
  assumes "distinct (map fst r)" and "mask_result (Suc n) True loads dumps (PDict r) = Some (Inr res)"
  shows "\<exists>out. res = PDict out \<and> map fst out = map fst r
           \<and> (\<forall>i < length r. \<not> fst (should_mask_column (fst (r ! i))) \<or> \<not> py_truthy (snd (r ! i))
                 \<longrightarrow> out ! i = r ! i)"
proof -
  from assms(2) obtain out where res: "res = PDict out" and mi: "mask_items [] r = Inr out"
    by (auto split: sum.splits)
  from mask_items_frame [OF assms(1) _ mi]
  have la: "list_all2 (\<lambda>(k, v) (k', v'). k' = k \<and> mask_field k v = Inr v') r out" by simp
  then have len: "length out = length r" by (simp add: list_all2_lengthD)
  have keys: "map fst out = map fst r"
    using la by (induction rule: list_all2_induct) auto
  have "\<forall>i < length r. \<not> fst (should_mask_column (fst (r ! i))) \<or> \<not> py_truthy (snd (r ! i))
                 \<longrightarrow> out ! i = r ! i"
  proof (intro allI impI)
    fix i assume i: "i < length r"
      and h: "\<not> fst (should_mask_column (fst (r ! i))) \<or> \<not> py_truthy (snd (r ! i))"
    from la i have "(\<lambda>(k, v) (k', v'). k' = k \<and> mask_field k v = Inr v') (r ! i) (out ! i)"
      by (rule list_all2_nthD)
    moreover from h have "mask_field (fst (r ! i)) (snd (r ! i)) = Inr (snd (r ! i))"
      by (rule mask_field_frame)
    ultimately show "out ! i = r ! i"
      by (cases "r ! i"; cases "out ! i") auto
  qed
  with res keys show ?thesis by blast
qed

text \<open>A value that is not a string, a list or a dict is returned as it is.\<close>

lemma mask_result_other:
  "mask_result (Suc n) enabled loads dumps PNone = Some (Inr PNone)"
  "mask_result (Suc n) enabled loads dumps (PBool b) = Some (Inr (PBool b))"
  "mask_result (Suc n) enabled loads dumps (PInt i) = Some (Inr (PInt i))"
  "mask_result (Suc n) enabled loads dumps (POpaque ty t sv rv) = Some (Inr (POpaque ty t sv rv))"
  by simp_all

lemma mask_items_email:
  "mask_items [] [(''email'', PStr ''@example.com'')] = Inl (IndexError ''string index out of range'')"
  by code_simp

text \<open>
  C10 (the code departs from it): on the record with the single field \<open>email\<close> holding
  \<open>@example.com\<close>, \<open>mask_result\<close> returns no dict: \<open>mask_email\<close> reads the first
  character of the empty local part and raises \<open>IndexError\<close>.
\<close>

theorem mask_result_email_raises:
  "mask_result (Suc n) True loads dumps (PDict [(''email'', PStr ''@example.com'')])
     = Some (Inl (IndexError ''string index out of range''))"
  by (simp only: mask_result.simps mask_items_email pyval.case sum.case simp_thms if_False if_True)

subsection \<open>Handling a tool call\<close>

lemma exec_calls_log_error: "exec_calls (log_error k m st) = exec_calls st"
  by (simp add: log_error_def)

lemma finish_tool_call_exec_calls:
  "exec_calls (fst (snd (finish_tool_call tool_call messages (st1, r)))) = exec_calls st1"
  by (cases r; cases "dict_item tool_call ''name''"; cases "dict_item tool_call ''call_id''")
     (simp_all add: finish_tool_call_def exec_calls_log_error Let_def)

lemma finish_tool_call_returns:
  assumes "dict_get tool_call ''name'' = Some nm" and "dict_get tool_call ''call_id'' = Some cid"
  shows "\<exists>result st'. finish_tool_call tool_call messages (st1, r)
           = (messages @ [create_function_call_output_item cid result], st',
              Inr (StreamEvent ITEM_DONE (create_function_call_output_item cid result)))"
  using assms by (cases r) (auto simp: finish_tool_call_def dict_item_def Let_def)

lemma finish_tool_call_raises:
  "snd (snd (finish_tool_call tool_call messages body)) = Inl e
     \<Longrightarrow> fst (finish_tool_call tool_call messages body) = messages"
  by (cases body; cases "snd body"; cases "dict_item tool_call ''name''";
      cases "dict_item tool_call ''call_id''")
     (simp_all add: finish_tool_call_def Let_def)

lemma next_action_output:
  "next_action (create_function_call_output_item cid result) = AskModel"
  by (simp add: next_action_def create_function_call_output_item_def dict_get_def)

lemma required_check_never_reports: "required_check tools clean_name \<noteq> Inr (Some missing)"
  by (cases "registry_get tools clean_name")
     (auto simp: required_check_def ebind_def ToolInfo_getattr_def split: option.splits)

lemma required_check_unregistered:
  "tools c = None \<Longrightarrow> required_check tools (PStr c) = Inr None"
  by (simp add: required_check_def ebind_def registry_get_def)

lemma loop_runtool_step:
  assumes "messages \<noteq> []" and "next_action (last messages) = RunTool"
    and "handler (last messages) messages st = (messages', st', Inr ev)"
  shows "tool_loop handler llm (Suc n) messages st evs
           = tool_loop handler llm n messages' st' (evs @ [ev])"
  using assms by (simp add: Let_def)

lemma loop_runtool_raises:
  assumes "messages \<noteq> []" and "next_action (last messages) = RunTool"
    and "handler (last messages) messages st = (messages', st', Inl e)"
  shows "tool_loop handler llm (Suc n) messages st evs = (messages', st', evs, Raised e)"
  using assms by (simp add: Let_def)

lemma loop_askmodel_step:
  assumes "messages \<noteq> []" and "next_action (last messages) = AskModel"
  shows "tool_loop handler llm (Suc n) messages st evs
           = tool_loop handler llm n (messages @ fst (llm messages))
               (st\<lparr>llm_calls := llm_calls st @ [messages]\<rparr>) (evs @ snd (llm messages))"
  using assms by (cases "llm messages") (simp add: Let_def)

text \<open>
  C9: when the last message is a pending tool call that carries a name and a call id, the
  iteration runs the handler on it, the handler appends exactly one message, the
  \<open>function_call_output\<close> item, and the loop goes on with that list; on that tail the
  next iteration asks the model, so the iteration after a tool call is a model turn. A
  handling that raises (an item without name or call id) appends nothing and ends the
  loop.
\<close>

theorem tool_result_then_model_turn:
  "(dict_get tool_call ''name'' \<noteq> None \<and> dict_get tool_call ''call_id'' \<noteq> None \<longrightarrow>
      (\<exists>out st'.
         handle_tool_call loads tools tool_call messages st
           = (messages @ [out], st', Inr (StreamEvent ITEM_DONE out))
         \<and> dict_get out ''type'' = Some (PStr ''function_call_output'')
         \<and> next_action out = AskModel
         \<and> tool_loop (handle_tool_call loads tools) llm (Suc n) (messages @ [out]) st' evs
             = tool_loop (handle_tool_call loads tools) llm n
                 (messages @ [out] @ fst (llm (messages @ [out])))
                 (st'\<lparr>llm_calls := llm_calls st' @ [messages @ [out]]\<rparr>)
                 (evs @ snd (llm (messages @ [out])))
         \<and> (messages \<noteq> [] \<and> last messages = tool_call \<and> next_action tool_call = RunTool \<longrightarrow>
              tool_loop (handle_tool_call loads tools) llm (Suc n) messages st evs
                = tool_loop (handle_tool_call loads tools) llm n (messages @ [out]) st'
                    (evs @ [StreamEvent ITEM_DONE out])
              \<and> tool_loop (handle_tool_call loads tools) llm (Suc (Suc n)) messages st evs
                = tool_loop (handle_tool_call loads tools) llm n
                    (messages @ [out] @ fst (llm (messages @ [out])))
                    (st'\<lparr>llm_calls := llm_calls st' @ [messages @ [out]]\<rparr>)
                    (evs @ [StreamEvent ITEM_DONE out] @ snd (llm (messages @ [out]))))))
   \<and> (snd (snd (handle_tool_call loads tools tool_call messages st)) = Inl e \<longrightarrow>
        fst (handle_tool_call loads tools tool_call messages st) = messages
        \<and> (messages \<noteq> [] \<and> last messages = tool_call \<and> next_action tool_call = RunTool \<longrightarrow>
             tool_loop (handle_tool_call loads tools) llm (Suc n) messages st evs
               = (messages, fst (snd (handle_tool_call loads tools tool_call messages st)), evs,
                  Raised e)))"
proof (intro conjI impI)
  assume "dict_get tool_call ''name'' \<noteq> None \<and> dict_get tool_call ''call_id'' \<noteq> None"
  then obtain nm cid where nm: "dict_get tool_call ''name'' = Some nm"
    and cid: "dict_get tool_call ''call_id'' = Some cid" by auto
  obtain st1 r where body: "tool_call_body loads tools tool_call st = (st1, r)"
    by (cases "tool_call_body loads tools tool_call st")
  from finish_tool_call_returns [OF nm cid, of messages st1 r] obtain result st' where
    fin: "finish_tool_call tool_call messages (st1, r)
           = (messages @ [create_function_call_output_item cid result], st',
              Inr (StreamEvent ITEM_DONE (create_function_call_output_item cid result)))"
    by blast
  let ?out = "create_function_call_output_item cid result"
  let ?H = "handle_tool_call loads tools"
  have h: "?H tool_call messages st = (messages @ [?out], st', Inr (StreamEvent ITEM_DONE ?out))"
    by (simp add: handle_tool_call_def body fin)
  have ty: "dict_get ?out ''type'' = Some (PStr ''function_call_output'')"
    by (simp add: create_function_call_output_item_def dict_get_def)
  have na: "next_action ?out = AskModel" by (rule next_action_output)
  have loop: "\<And>evs. tool_loop ?H llm (Suc n) (messages @ [?out]) st' evs
             = tool_loop ?H llm n
                 (messages @ [?out] @ fst (llm (messages @ [?out])))
                 (st'\<lparr>llm_calls := llm_calls st' @ [messages @ [?out]]\<rparr>)
                 (evs @ snd (llm (messages @ [?out])))"
    using loop_askmodel_step [of "messages @ [?out]" ?H llm n st'] na by simp
  have step: "messages \<noteq> [] \<and> last messages = tool_call \<and> next_action tool_call = RunTool \<longrightarrow>
              tool_loop ?H llm (Suc n) messages st evs
                = tool_loop ?H llm n (messages @ [?out]) st' (evs @ [StreamEvent ITEM_DONE ?out])
              \<and> tool_loop ?H llm (Suc (Suc n)) messages st evs
                = tool_loop ?H llm n
                    (messages @ [?out] @ fst (llm (messages @ [?out])))
                    (st'\<lparr>llm_calls := llm_calls st' @ [messages @ [?out]]\<rparr>)
                    (evs @ [StreamEvent ITEM_DONE ?out] @ snd (llm (messages @ [?out])))"
  proof (intro impI, elim conjE)
    assume ne: "messages \<noteq> []" and l: "last messages = tool_call"
      and rt: "next_action tool_call = RunTool"
    have s1: "\<And>k. tool_loop ?H llm (Suc k) messages st evs
                = tool_loop ?H llm k (messages @ [?out]) st' (evs @ [StreamEvent ITEM_DONE ?out])"
      using loop_runtool_step [of messages ?H st "messages @ [?out]" st' "StreamEvent ITEM_DONE ?out"]
            ne l rt h by simp
    have s2: "tool_loop ?H llm (Suc (Suc n)) messages st evs
                = tool_loop ?H llm n
                    (messages @ [?out] @ fst (llm (messages @ [?out])))
                    (st'\<lparr>llm_calls := llm_calls st' @ [messages @ [?out]]\<rparr>)
                    (evs @ [StreamEvent ITEM_DONE ?out] @ snd (llm (messages @ [?out])))"
      using s1 [of "Suc n"] loop [of "evs @ [StreamEvent ITEM_DONE ?out]"] by simp
    from s1 [of n] s2
    show "tool_loop ?H llm (Suc n) messages st evs
                = tool_loop ?H llm n (messages @ [?out]) st' (evs @ [StreamEvent ITEM_DONE ?out])
              \<and> tool_loop ?H llm (Suc (Suc n)) messages st evs
                = tool_loop ?H llm n
                    (messages @ [?out] @ fst (llm (messages @ [?out])))
                    (st'\<lparr>llm_calls := llm_calls st' @ [messages @ [?out]]\<rparr>)
                    (evs @ [StreamEvent ITEM_DONE ?out] @ snd (llm (messages @ [?out])))"
      by blast
  qed
  from h ty na loop [of evs] step
  show "\<exists>out st'.
         ?H tool_call messages st = (messages @ [out], st', Inr (StreamEvent ITEM_DONE out))
         \<and> dict_get out ''type'' = Some (PStr ''function_call_output'')
         \<and> next_action out = AskModel
         \<and> tool_loop ?H llm (Suc n) (messages @ [out]) st' evs
             = tool_loop ?H llm n
                 (messages @ [out] @ fst (llm (messages @ [out])))
                 (st'\<lparr>llm_calls := llm_calls st' @ [messages @ [out]]\<rparr>)
                 (evs @ snd (llm (messages @ [out])))
         \<and> (messages \<noteq> [] \<and> last messages = tool_call \<and> next_action tool_call = RunTool \<longrightarrow>
              tool_loop ?H llm (Suc n) messages st evs
                = tool_loop ?H llm n (messages @ [out]) st' (evs @ [StreamEvent ITEM_DONE out])
              \<and> tool_loop ?H llm (Suc (Suc n)) messages st evs
                = tool_loop ?H llm n
                    (messages @ [out] @ fst (llm (messages @ [out])))
                    (st'\<lparr>llm_calls := llm_calls st' @ [messages @ [out]]\<rparr>)
                    (evs @ [StreamEvent ITEM_DONE out] @ snd (llm (messages @ [out]))))"
    by blast
next
  assume "snd (snd (handle_tool_call loads tools tool_call messages st)) = Inl e"
  then show "fst (handle_tool_call loads tools tool_call messages st) = messages"
    unfolding handle_tool_call_def by (rule finish_tool_call_raises)
next
  assume r: "snd (snd (handle_tool_call loads tools tool_call messages st)) = Inl e"
    and "messages \<noteq> [] \<and> last messages = tool_call \<and> next_action tool_call = RunTool"
  then have ne: "messages \<noteq> []" and l: "last messages = tool_call"
    and rt: "next_action (last messages) = RunTool" by auto
  have m: "fst (handle_tool_call loads tools tool_call messages st) = messages"
    using r unfolding handle_tool_call_def by (rule finish_tool_call_raises)
  have "handle_tool_call loads tools (last messages) messages st
          = (messages, fst (snd (handle_tool_call loads tools tool_call messages st)), Inl e)"
    using r m l by (cases "handle_tool_call loads tools tool_call messages st") auto
  from loop_runtool_raises [where handler = "handle_tool_call loads tools", OF ne rt this]
  show "tool_loop (handle_tool_call loads tools) llm (Suc n) messages st evs
               = (messages, fst (snd (handle_tool_call loads tools tool_call messages st)), evs,
                  Raised e)" by simp
qed

theorem tool_result_then_model_turn_witness:
  "dict_get sample_call ''name'' \<noteq> None \<and> dict_get sample_call ''call_id'' \<noteq> None
   \<and> [user_message ''q'', sample_call] \<noteq> []
   \<and> last [user_message ''q'', sample_call] = sample_call
   \<and> next_action sample_call = RunTool
   \<and> (\<exists>out st'.
         handle_tool_call sample_loads sample_tools sample_call [user_message ''q'', sample_call]
             initial_state
           = ([user_message ''q'', sample_call] @ [out], st', Inr (StreamEvent ITEM_DONE out))
         \<and> dict_get out ''type'' = Some (PStr ''function_call_output'')
         \<and> next_action out = AskModel
         \<and> tool_loop (handle_tool_call sample_loads sample_tools) answering_llm (Suc 0)
               [user_message ''q'', sample_call] initial_state []
             = tool_loop (handle_tool_call sample_loads sample_tools) answering_llm 0
                 ([user_message ''q'', sample_call] @ [out]) st' ([] @ [StreamEvent ITEM_DONE out]))
   \<and> snd (snd (handle_tool_call sample_loads sample_tools call_without_id
                 [user_message ''q'', call_without_id] initial_state))
       = Inl (KeyError (repr_str ''call_id''))
   \<and> last [user_message ''q'', call_without_id] = call_without_id
   \<and> next_action call_without_id = RunTool
   \<and> fst (handle_tool_call sample_loads sample_tools call_without_id
            [user_message ''q'', call_without_id] initial_state)
       = [user_message ''q'', call_without_id]
   \<and> tool_loop (handle_tool_call sample_loads sample_tools) answering_llm (Suc 0)
         [user_message ''q'', call_without_id] initial_state []
       = ([user_message ''q'', call_without_id],
          fst (snd (handle_tool_call sample_loads sample_tools call_without_id
                      [user_message ''q'', call_without_id] initial_state)),
          [], Raised (KeyError (repr_str ''call_id'')))"
proof -
  have h1: "dict_get sample_call ''name'' \<noteq> None" by code_simp
  have h2: "dict_get sample_call ''call_id'' \<noteq> None" by code_simp
  have h3: "[user_message ''q'', sample_call] \<noteq> []" by simp
  have h4: "last [user_message ''q'', sample_call] = sample_call" by simp
  have h5: "next_action sample_call = RunTool" by code_simp
  have h6: "snd (snd (handle_tool_call sample_loads sample_tools call_without_id
                        [user_message ''q'', call_without_id] initial_state))
              = Inl (KeyError (repr_str ''call_id''))"
    by code_simp
  have h7: "[user_message ''q'', call_without_id] \<noteq> []" by simp
  have h8: "last [user_message ''q'', call_without_id] = call_without_id" by simp
  have h9: "next_action call_without_id = RunTool" by code_simp
  note a = tool_result_then_model_turn
             [of sample_call sample_loads sample_tools "[user_message ''q'', sample_call]"
                 initial_state answering_llm 0 "[]"]
  note b = tool_result_then_model_turn
             [of call_without_id sample_loads sample_tools "[user_message ''q'', call_without_id]"
                 initial_state answering_llm 0 "[]" "KeyError (repr_str ''call_id'')"]
  from a h1 h2 obtain out st' where o:
    "handle_tool_call sample_loads sample_tools sample_call [user_message ''q'', sample_call]
         initial_state
       = ([user_message ''q'', sample_call] @ [out], st', Inr (StreamEvent ITEM_DONE out))"
    "dict_get out ''type'' = Some (PStr ''function_call_output'')"
    "next_action out = AskModel"
    "[user_message ''q'', sample_call] \<noteq> [] \<and> last [user_message ''q'', sample_call] = sample_call
       \<and> next_action sample_call = RunTool \<longrightarrow>
     tool_loop (handle_tool_call sample_loads sample_tools) answering_llm (Suc 0)
         [user_message ''q'', sample_call] initial_state []
       = tool_loop (handle_tool_call sample_loads sample_tools) answering_llm 0
           ([user_message ''q'', sample_call] @ [out]) st' ([] @ [StreamEvent ITEM_DONE out])
     \<and> tool_loop (handle_tool_call sample_loads sample_tools) answering_llm (Suc (Suc 0))
         [user_message ''q'', sample_call] initial_state []
       = tool_loop (handle_tool_call sample_loads sample_tools) answering_llm 0
           ([user_message ''q'', sample_call] @ [out] @ fst (answering_llm ([user_message ''q'', sample_call] @ [out])))
           (st'\<lparr>llm_calls := llm_calls st' @ [[user_message ''q'', sample_call] @ [out]]\<rparr>)
           ([] @ [StreamEvent ITEM_DONE out] @ snd (answering_llm ([user_message ''q'', sample_call] @ [out])))"
    by blast
  from o(4) h3 h4 h5 have o5:
    "tool_loop (handle_tool_call sample_loads sample_tools) answering_llm (Suc 0)
         [user_message ''q'', sample_call] initial_state []
       = tool_loop (handle_tool_call sample_loads sample_tools) answering_llm 0
           ([user_message ''q'', sample_call] @ [out]) st' ([] @ [StreamEvent ITEM_DONE out])"
    by blast
  from o(1,2,3) o5 have c: "\<exists>out st'.
         handle_tool_call sample_loads sample_tools sample_call [user_message ''q'', sample_call]
             initial_state
           = ([user_message ''q'', sample_call] @ [out], st', Inr (StreamEvent ITEM_DONE out))
         \<and> dict_get out ''type'' = Some (PStr ''function_call_output'')
         \<and> next_action out = AskModel
         \<and> tool_loop (handle_tool_call sample_loads sample_tools) answering_llm (Suc 0)
               [user_message ''q'', sample_call] initial_state []
             = tool_loop (handle_tool_call sample_loads sample_tools) answering_llm 0
                 ([user_message ''q'', sample_call] @ [out]) st' ([] @ [StreamEvent ITEM_DONE out])"
    by blast
  from b h6 h7 h8 h9 have d:
    "fst (handle_tool_call sample_loads sample_tools call_without_id
            [user_message ''q'', call_without_id] initial_state)
       = [user_message ''q'', call_without_id]"
    "tool_loop (handle_tool_call sample_loads sample_tools) answering_llm (Suc 0)
         [user_message ''q'', call_without_id] initial_state []
       = ([user_message ''q'', call_without_id],
          fst (snd (handle_tool_call sample_loads sample_tools call_without_id
                      [user_message ''q'', call_without_id] initial_state)),
          [], Raised (KeyError (repr_str ''call_id'')))"
    by blast+
  from h1 h2 h3 h4 h5 c h6 h8 h9 d show ?thesis by blast
qed

lemma tool_call_body_not_found:
  assumes "dict_get tool_call ''name'' = Some (PStr raw)"
    and "tools (sanitize_function_name raw) = None"
  shows "exec_calls (fst (tool_call_body loads tools tool_call st)) = exec_calls st"
    and "dict_get tool_call ''arguments'' = Some (PStr payload) \<Longrightarrow> loads payload = Inr parsed
           \<Longrightarrow> tool_call_body loads tools tool_call st = (st, Inr NOT_FOUND)"
proof -
  have nm: "dict_item tool_call ''name'' = Inr (PStr raw)"
    using assms(1) by (simp add: dict_item_def)
  have cl: "sanitize_call (PStr raw) = Inr (PStr (sanitize_function_name raw))"
    by (simp add: sanitize_call_def)
  have rc: "required_check tools (PStr (sanitize_function_name raw)) = Inr None"
    using assms(2) by (rule required_check_unregistered)
  have rg: "registry_get tools (PStr (sanitize_function_name raw)) = Inr None"
    using assms(2) by (simp add: registry_get_def)
  show "exec_calls (fst (tool_call_body loads tools tool_call st)) = exec_calls st"
    by (cases "ebind (dict_item tool_call ''arguments'') (loads_call loads)")
       (simp_all add: tool_call_body_def nm cl rc rg Let_def)
  assume "dict_get tool_call ''arguments'' = Some (PStr payload)" and "loads payload = Inr parsed"
  then have "ebind (dict_item tool_call ''arguments'') (loads_call loads) = Inr parsed"
    by (simp add: dict_item_def ebind_def loads_call_def)
  then show "tool_call_body loads tools tool_call st = (st, Inr NOT_FOUND)"
    by (simp add: tool_call_body_def nm cl rc rg Let_def)
qed

lemma tool_call_body_driver_not_found:
  assumes "dict_get tool_call ''name'' = Some (PStr raw)" and "tools raw = None"
  shows "exec_calls (fst (tool_call_body_driver loads tools tool_call st)) = exec_calls st"
proof -
  have nm: "dict_item tool_call ''name'' = Inr (PStr raw)"
    using assms(1) by (simp add: dict_item_def)
  have ri: "registry_item tools (PStr raw) = Inl (KeyError (py_repr (PStr raw)))"
    using assms(2) by (simp add: registry_item_def registry_get_def ebind_def)
  show ?thesis
    by (cases "ebind (dict_item tool_call ''arguments'') (loads_call loads)")
       (simp_all add: tool_call_body_driver_def execute_tool_driver_def nm ri Let_def)
qed

lemma finish_tool_call_result:
  assumes "dict_get tool_call ''call_id'' = Some cid"
  shows "finish_tool_call tool_call messages (st1, Inr result)
           = (messages @ [create_function_call_output_item cid result], st1,
              Inr (StreamEvent ITEM_DONE (create_function_call_output_item cid result)))"
  using assms by (simp add: finish_tool_call_def dict_item_def Let_def)

lemma finish_tool_call_caught:
  assumes "dict_get tool_call ''name'' = Some nm" and "dict_get tool_call ''call_id'' = Some cid"
  shows "finish_tool_call tool_call messages (st1, Inl e)
           = (messages @ [create_function_call_output_item cid (''Error executing tool: '' @ exc_str e)],
              log_error ''tool_call_error'' (exc_str e) st1,
              Inr (StreamEvent ITEM_DONE
                     (create_function_call_output_item cid (''Error executing tool: '' @ exc_str e))))"
  using assms by (simp add: finish_tool_call_def dict_item_def Let_def)

lemma tool_call_body_unparsed:
  assumes "dict_get tool_call ''name'' = Some (PStr raw)"
    and "dict_get tool_call ''arguments'' = Some (PStr payload)" and "loads payload = Inl msg"
  shows "tool_call_body loads tools tool_call st = (st, Inl (JSONDecodeError msg))"
    and "tool_call_body_driver loads tools tool_call st = (st, Inl (JSONDecodeError msg))"
proof -
  have a: "ebind (dict_item tool_call ''arguments'') (loads_call loads) = Inl (JSONDecodeError msg)"
    using assms(2,3) by (simp add: dict_item_def ebind_def loads_call_def)
  show "tool_call_body loads tools tool_call st = (st, Inl (JSONDecodeError msg))"
    using assms(1) a by (simp add: tool_call_body_def dict_item_def sanitize_call_def)
  show "tool_call_body_driver loads tools tool_call st = (st, Inl (JSONDecodeError msg))"
    using a by (simp add: tool_call_body_driver_def)
qed

lemma tool_call_body_driver_key_error:
  assumes "dict_get tool_call ''name'' = Some (PStr raw)" and "tools raw = None"
    and "dict_get tool_call ''arguments'' = Some (PStr payload)" and "loads payload = Inr parsed"
  shows "tool_call_body_driver loads tools tool_call st
           = (st\<lparr>functions_called := functions_called st @ [PStr raw]\<rparr>,
              Inl (KeyError (repr_str raw)))"
proof -
  have a: "ebind (dict_item tool_call ''arguments'') (loads_call loads) = Inr parsed"
    using assms(3,4) by (simp add: dict_item_def ebind_def loads_call_def)
  have nm: "dict_item tool_call ''name'' = Inr (PStr raw)"
    using assms(1) by (simp add: dict_item_def)
  have ri: "registry_item tools (PStr raw) = Inl (KeyError (repr_str raw))"
    using assms(2) by (simp add: registry_item_def registry_get_def ebind_def)
  show ?thesis
    by (simp add: tool_call_body_driver_def execute_tool_driver_def a nm ri Let_def)
qed

text \<open>
  C3 (amended): take a tool call whose name is a string and which carries a call id and a
  text payload. In \<open>agent.py\<close>, when the repaired name is not in the registry, the handler
  appends the tool result with the fixed function-not-found text if the payload parses,
  and with \<open>Error executing tool:\<close> and the parse error if it does not. In the earlier
  variant, which has neither repair nor lookup guard, when the name is not in the
  registry the tool result carries \<open>Error executing tool:\<close> and the quoted name if the
  payload parses, and the parse error if it does not. In every case, call id or not, no
  executor is invoked.
\<close>

theorem unregistered_name_not_found:
  "dict_get tool_call ''name'' = Some (PStr raw) \<longrightarrow>
     (tools (sanitize_function_name raw) = None \<longrightarrow>
        (dict_get tool_call ''arguments'' = Some (PStr payload) \<and> loads payload = Inr parsed
           \<and> dict_get tool_call ''call_id'' = Some cid \<longrightarrow>
           handle_tool_call loads tools tool_call messages st
             = (messages @ [create_function_call_output_item cid NOT_FOUND], st,
                Inr (StreamEvent ITEM_DONE (create_function_call_output_item cid NOT_FOUND))))
        \<and> (dict_get tool_call ''arguments'' = Some (PStr payload) \<and> loads payload = Inl msg
           \<and> dict_get tool_call ''call_id'' = Some cid \<longrightarrow>
           handle_tool_call loads tools tool_call messages st
             = (messages @ [create_function_call_output_item cid (''Error executing tool: '' @ msg)],
                log_error ''tool_call_error'' msg st,
                Inr (StreamEvent ITEM_DONE
                       (create_function_call_output_item cid (''Error executing tool: '' @ msg)))))
        \<and> exec_calls (fst (snd (handle_tool_call loads tools tool_call messages st))) = exec_calls st)
     \<and> (tools raw = None \<longrightarrow>
        (dict_get tool_call ''arguments'' = Some (PStr payload) \<and> loads payload = Inr parsed
           \<and> dict_get tool_call ''call_id'' = Some cid \<longrightarrow>
           handle_tool_call_driver loads tools tool_call messages st
             = (messages @ [create_function_call_output_item cid
                              (''Error executing tool: '' @ repr_str raw)],
                log_error ''tool_call_error'' (repr_str raw)
                  (st\<lparr>functions_called := functions_called st @ [PStr raw]\<rparr>),
                Inr (StreamEvent ITEM_DONE
                       (create_function_call_output_item cid
                          (''Error executing tool: '' @ repr_str raw)))))
        \<and> (dict_get tool_call ''arguments'' = Some (PStr payload) \<and> loads payload = Inl msg
           \<and> dict_get tool_call ''call_id'' = Some cid \<longrightarrow>
           handle_tool_call_driver loads tools tool_call messages st
             = (messages @ [create_function_call_output_item cid (''Error executing tool: '' @ msg)],
                log_error ''tool_call_error'' msg st,
                Inr (StreamEvent ITEM_DONE
                       (create_function_call_output_item cid (''Error executing tool: '' @ msg)))))
        \<and> exec_calls (fst (snd (handle_tool_call_driver loads tools tool_call messages st)))
            = exec_calls st)"
proof (intro impI conjI; (elim conjE)?)
  assume nm: "dict_get tool_call ''name'' = Some (PStr raw)"
  {
    assume un: "tools (sanitize_function_name raw) = None"
    {
      assume "dict_get tool_call ''arguments'' = Some (PStr payload)" and "loads payload = Inr parsed"
        and cid: "dict_get tool_call ''call_id'' = Some cid"
      then have "tool_call_body loads tools tool_call st = (st, Inr NOT_FOUND)"
        using tool_call_body_not_found(2) [where tools = tools and loads = loads, OF nm un] by blast
      then show "handle_tool_call loads tools tool_call messages st
             = (messages @ [create_function_call_output_item cid NOT_FOUND], st,
                Inr (StreamEvent ITEM_DONE (create_function_call_output_item cid NOT_FOUND)))"
        using finish_tool_call_result [OF cid] by (simp add: handle_tool_call_def)
    }
    {
      assume ar: "dict_get tool_call ''arguments'' = Some (PStr payload)" and l: "loads payload = Inl msg"
        and cid: "dict_get tool_call ''call_id'' = Some cid"
      have "tool_call_body loads tools tool_call st = (st, Inl (JSONDecodeError msg))"
        using tool_call_body_unparsed(1) [where loads = loads, OF nm ar l] by simp
      then show "handle_tool_call loads tools tool_call messages st
             = (messages @ [create_function_call_output_item cid (''Error executing tool: '' @ msg)],
                log_error ''tool_call_error'' msg st,
                Inr (StreamEvent ITEM_DONE
                       (create_function_call_output_item cid (''Error executing tool: '' @ msg))))"
        using finish_tool_call_caught [OF nm cid, of messages st "JSONDecodeError msg"]
        by (simp add: handle_tool_call_def)
    }
    show "exec_calls (fst (snd (handle_tool_call loads tools tool_call messages st))) = exec_calls st"
      using finish_tool_call_exec_calls
              [of tool_call messages "fst (tool_call_body loads tools tool_call st)"
                  "snd (tool_call_body loads tools tool_call st)"]
            tool_call_body_not_found(1) [where tools = tools and loads = loads and st = st, OF nm un]
      by (simp add: handle_tool_call_def)
  }
  {
    assume un: "tools raw = None"
    {
      assume ar: "dict_get tool_call ''arguments'' = Some (PStr payload)"
        and l: "loads payload = Inr parsed"
        and cid: "dict_get tool_call ''call_id'' = Some cid"
      have "tool_call_body_driver loads tools tool_call st
              = (st\<lparr>functions_called := functions_called st @ [PStr raw]\<rparr>,
                 Inl (KeyError (repr_str raw)))"
        using tool_call_body_driver_key_error [where loads = loads and tools = tools, OF nm un ar l] by simp
      then show "handle_tool_call_driver loads tools tool_call messages st
             = (messages @ [create_function_call_output_item cid
                              (''Error executing tool: '' @ repr_str raw)],
                log_error ''tool_call_error'' (repr_str raw)
                  (st\<lparr>functions_called := functions_called st @ [PStr raw]\<rparr>),
                Inr (StreamEvent ITEM_DONE
                       (create_function_call_output_item cid
                          (''Error executing tool: '' @ repr_str raw))))"
        using finish_tool_call_caught
                [OF nm cid, of messages "st\<lparr>functions_called := functions_called st @ [PStr raw]\<rparr>"
                    "KeyError (repr_str raw)"]
        by (simp add: handle_tool_call_driver_def)
    }
    {
      assume ar: "dict_get tool_call ''arguments'' = Some (PStr payload)" and l: "loads payload = Inl msg"
        and cid: "dict_get tool_call ''call_id'' = Some cid"
      have "tool_call_body_driver loads tools tool_call st = (st, Inl (JSONDecodeError msg))"
        using tool_call_body_unparsed(2) [where loads = loads, OF nm ar l] by simp
      then show "handle_tool_call_driver loads tools tool_call messages st
             = (messages @ [create_function_call_output_item cid (''Error executing tool: '' @ msg)],
                log_error ''tool_call_error'' msg st,
                Inr (StreamEvent ITEM_DONE
                       (create_function_call_output_item cid (''Error executing tool: '' @ msg))))"
        using finish_tool_call_caught [OF nm cid, of messages st "JSONDecodeError msg"]
        by (simp add: handle_tool_call_driver_def)
    }
    show "exec_calls (fst (snd (handle_tool_call_driver loads tools tool_call messages st)))
            = exec_calls st"
      using finish_tool_call_exec_calls
              [of tool_call messages "fst (tool_call_body_driver loads tools tool_call st)"
                  "snd (tool_call_body_driver loads tools tool_call st)"]
            tool_call_body_driver_not_found [where tools = tools and loads = loads and st = st, OF nm un]
      by (simp add: handle_tool_call_driver_def)
  }
qed

text \<open>
  C3 (as stated, refuted): \<open>get_everything\<close> is not registered, yet in \<open>agent.py\<close>, with a
  payload that is not JSON, the tool result carries the text of the parse error; and in
  the earlier variant, with the payload \<open>{}\<close>, it carries the text of the \<open>KeyError\<close>.
  Neither is the function-not-found text.
\<close>

theorem unregistered_name_bad_arguments:
  "sample_tools (sanitize_function_name ''get_everything'') = None
   \<and> sample_loads ''not json'' = Inl NOT_JSON_MESSAGE
   \<and> fst (handle_tool_call sample_loads sample_tools (unregistered_call ''not json'') [] initial_state)
       = [create_function_call_output_item (PStr ''call_1'')
            (''Error executing tool: '' @ NOT_JSON_MESSAGE)]
   \<and> ''Error executing tool: '' @ NOT_JSON_MESSAGE \<noteq> NOT_FOUND
   \<and> sample_loads ''{}'' = Inr (PDict [])
   \<and> fst (handle_tool_call_driver sample_loads sample_tools (unregistered_call ''{}'') [] initial_state)
       = [create_function_call_output_item (PStr ''call_1'')
            (''Error executing tool: '' @ [CHR 0x27] @ ''get_everything'' @ [CHR 0x27])]
   \<and> ''Error executing tool: '' @ [CHR 0x27] @ ''get_everything'' @ [CHR 0x27] \<noteq> NOT_FOUND"
  by code_simp

theorem unregistered_name_not_found_witness:
  "dict_get (hallucinated_call ''{}'') ''name'' = Some (PStr ''get_everything<|channel|>commentary'')
   \<and> sample_tools (sanitize_function_name ''get_everything<|channel|>commentary'') = None
   \<and> sample_tools ''get_everything<|channel|>commentary'' = None
   \<and> dict_get (hallucinated_call ''{}'') ''arguments'' = Some (PStr ''{}'')
   \<and> sample_loads ''{}'' = Inr (PDict [])
   \<and> dict_get (hallucinated_call ''{}'') ''call_id'' = Some (PStr ''call_1'')
   \<and> handle_tool_call sample_loads sample_tools (hallucinated_call ''{}'') [] initial_state
       = ([] @ [create_function_call_output_item (PStr ''call_1'') NOT_FOUND], initial_state,
          Inr (StreamEvent ITEM_DONE (create_function_call_output_item (PStr ''call_1'') NOT_FOUND)))
   \<and> exec_calls (fst (snd (handle_tool_call sample_loads sample_tools (hallucinated_call ''{}'') []
                             initial_state)))
       = exec_calls initial_state
   \<and> fst (handle_tool_call_driver sample_loads sample_tools (hallucinated_call ''{}'') [] initial_state)
       = [] @ [create_function_call_output_item (PStr ''call_1'')
                 (''Error executing tool: '' @ repr_str ''get_everything<|channel|>commentary'')]
   \<and> exec_calls (fst (snd (handle_tool_call_driver sample_loads sample_tools
                             (hallucinated_call ''{}'') [] initial_state)))
       = exec_calls initial_state
   \<and> dict_get (hallucinated_call ''not json'') ''name''
       = Some (PStr ''get_everything<|channel|>commentary'')
   \<and> dict_get (hallucinated_call ''not json'') ''arguments'' = Some (PStr ''not json'')
   \<and> sample_loads ''not json'' = Inl NOT_JSON_MESSAGE
   \<and> dict_get (hallucinated_call ''not json'') ''call_id'' = Some (PStr ''call_1'')
   \<and> fst (handle_tool_call sample_loads sample_tools (hallucinated_call ''not json'') [] initial_state)
       = [] @ [create_function_call_output_item (PStr ''call_1'')
                 (''Error executing tool: '' @ NOT_JSON_MESSAGE)]
   \<and> fst (handle_tool_call_driver sample_loads sample_tools (hallucinated_call ''not json'') []
            initial_state)
       = [] @ [create_function_call_output_item (PStr ''call_1'')
                 (''Error executing tool: '' @ NOT_JSON_MESSAGE)]"
proof -
  have h1: "dict_get (hallucinated_call ''{}'') ''name''
              = Some (PStr ''get_everything<|channel|>commentary'')" by code_simp
  have h2: "sample_tools (sanitize_function_name ''get_everything<|channel|>commentary'') = None"
    by code_simp
  have h3: "dict_get (hallucinated_call ''{}'') ''arguments'' = Some (PStr ''{}'')" by code_simp
  have h4: "sample_loads ''{}'' = Inr (PDict [])" by code_simp
  have h5: "dict_get (hallucinated_call ''{}'') ''call_id'' = Some (PStr ''call_1'')" by code_simp
  have h6: "sample_tools ''get_everything<|channel|>commentary'' = None" by code_simp
  have k1: "dict_get (hallucinated_call ''not json'') ''name''
              = Some (PStr ''get_everything<|channel|>commentary'')" by code_simp
  have k3: "dict_get (hallucinated_call ''not json'') ''arguments'' = Some (PStr ''not json'')"
    by code_simp
  have k4: "sample_loads ''not json'' = Inl NOT_JSON_MESSAGE" by code_simp
  have k5: "dict_get (hallucinated_call ''not json'') ''call_id'' = Some (PStr ''call_1'')"
    by code_simp
  note a = unregistered_name_not_found
             [of "hallucinated_call ''{}''" "''get_everything<|channel|>commentary''" sample_tools
                 "''{}''" sample_loads "PDict []" "PStr ''call_1''" "[]" initial_state]
  note b = unregistered_name_not_found
             [of "hallucinated_call ''not json''" "''get_everything<|channel|>commentary''"
                 sample_tools "''not json''" sample_loads _ "PStr ''call_1''" "[]" initial_state
                 NOT_JSON_MESSAGE]
  from a h1 h2 h3 h4 h5 h6 have a1:
    "handle_tool_call sample_loads sample_tools (hallucinated_call ''{}'') [] initial_state
       = ([] @ [create_function_call_output_item (PStr ''call_1'') NOT_FOUND], initial_state,
          Inr (StreamEvent ITEM_DONE (create_function_call_output_item (PStr ''call_1'') NOT_FOUND)))"
    "exec_calls (fst (snd (handle_tool_call sample_loads sample_tools (hallucinated_call ''{}'') []
                             initial_state)))
       = exec_calls initial_state"
    "exec_calls (fst (snd (handle_tool_call_driver sample_loads sample_tools
                             (hallucinated_call ''{}'') [] initial_state)))
       = exec_calls initial_state"
    by blast+
  from a h1 h3 h4 h5 h6 have
    "handle_tool_call_driver sample_loads sample_tools (hallucinated_call ''{}'') [] initial_state
             = ([] @ [create_function_call_output_item (PStr ''call_1'')
                              (''Error executing tool: '' @ repr_str ''get_everything<|channel|>commentary'')],
                log_error ''tool_call_error'' (repr_str ''get_everything<|channel|>commentary'')
                  (initial_state\<lparr>functions_called := functions_called initial_state
                       @ [PStr ''get_everything<|channel|>commentary'']\<rparr>),
                Inr (StreamEvent ITEM_DONE
                       (create_function_call_output_item (PStr ''call_1'')
                          (''Error executing tool: '' @ repr_str ''get_everything<|channel|>commentary''))))"
    by blast
  then have a2:
    "fst (handle_tool_call_driver sample_loads sample_tools (hallucinated_call ''{}'') [] initial_state)
       = [] @ [create_function_call_output_item (PStr ''call_1'')
                 (''Error executing tool: '' @ repr_str ''get_everything<|channel|>commentary'')]"
    by (simp only: fst_conv)
  from b k1 h2 k3 k4 k5 have
    "handle_tool_call sample_loads sample_tools (hallucinated_call ''not json'') [] initial_state
             = ([] @ [create_function_call_output_item (PStr ''call_1'')
                        (''Error executing tool: '' @ NOT_JSON_MESSAGE)],
                log_error ''tool_call_error'' NOT_JSON_MESSAGE initial_state,
                Inr (StreamEvent ITEM_DONE
                       (create_function_call_output_item (PStr ''call_1'')
                          (''Error executing tool: '' @ NOT_JSON_MESSAGE))))"
    by blast
  then have b1:
    "fst (handle_tool_call sample_loads sample_tools (hallucinated_call ''not json'') [] initial_state)
       = [] @ [create_function_call_output_item (PStr ''call_1'')
                 (''Error executing tool: '' @ NOT_JSON_MESSAGE)]"
    by (simp only: fst_conv)
  from b k1 h6 k3 k4 k5 have
    "handle_tool_call_driver sample_loads sample_tools (hallucinated_call ''not json'') []
         initial_state
             = ([] @ [create_function_call_output_item (PStr ''call_1'')
                        (''Error executing tool: '' @ NOT_JSON_MESSAGE)],
                log_error ''tool_call_error'' NOT_JSON_MESSAGE initial_state,
                Inr (StreamEvent ITEM_DONE
                       (create_function_call_output_item (PStr ''call_1'')
                          (''Error executing tool: '' @ NOT_JSON_MESSAGE))))"
    by blast
  then have b2:
    "fst (handle_tool_call_driver sample_loads sample_tools (hallucinated_call ''not json'') []
            initial_state)
       = [] @ [create_function_call_output_item (PStr ''call_1'')
                 (''Error executing tool: '' @ NOT_JSON_MESSAGE)]"
    by (simp only: fst_conv)
  from h1 h2 h6 h3 h4 h5 a1 a2 k1 k3 k4 k5 b1 b2 show ?thesis by blast
qed

subsection \<open>The required-parameter check\<close>

text \<open>
  C1 (the code departs from it): the registered sample tool declares the required
  parameter \<open>patient_id\<close> and is called with the empty object. The handler does not
  report missing parameters: the check looks for an attribute \<open>parameters\<close> that a
  \<open>ToolInfo\<close> does not have, so the executor is invoked, once, with no arguments, and its
  result is what the tool result carries.
\<close>

theorem empty_args_executor_invoked:
  "declared_required sample_tool = [PStr ''patient_id'']
   \<and> sample_loads ''{}'' = Inr (PDict [])
   \<and> handle_tool_call sample_loads sample_tools sample_call [] initial_state
      = ([create_function_call_output_item (PStr ''call_1'') NO_RESULTS],
         initial_state\<lparr>functions_called := [PStr ''dev_kiddo__silver__get_patient_gaps''],
                        exec_calls := [(''dev_kiddo__silver__get_patient_gaps'', [])]\<rparr>,
         Inr (StreamEvent ITEM_DONE (create_function_call_output_item (PStr ''call_1'') NO_RESULTS)))"
  by code_simp

subsection \<open>The iteration ceiling\<close>

text \<open>What follows the loop: the apology and the log record, exactly when the loop ran out.\<close>

lemma after_loop_cases:
  "after_loop uid k (ms, st, evs, Exhausted)
     = (ms, log_error ''max_iterations'' (''Reached max iterations ('' @ show_nat k @ '')'') st,
        evs @ [StreamEvent ITEM_DONE (create_text_output_item APOLOGY uid)], Exhausted)"
  "after_loop uid k (ms, st, evs, Finished) = (ms, st, evs, Finished)"
  "after_loop uid k (ms, st, evs, Raised e) = (ms, st, evs, Raised e)"
  by (simp_all add: after_loop_def)

text \<open>The loop returns only on a conversation that ends with an assistant message.\<close>

lemma tool_loop_finished:
  "tool_loop handler llm n messages st evs = (ms', st', evs', Finished)
     \<Longrightarrow> ms' \<noteq> [] \<and> next_action (last ms') = Stop"
proof (induction n arbitrary: messages st evs)
  case 0
  then show ?case by simp
next
  case (Suc n)
  show ?case
  proof (cases "messages = []")
    case True
    with Suc.prems show ?thesis by simp
  next
    case False
    show ?thesis
    proof (cases "next_action (last messages)")
      case Stop
      with False Suc.prems show ?thesis by (simp add: Let_def)
    next
      case RunTool
      obtain m1 s1 r1 where h: "handler (last messages) messages st = (m1, s1, r1)"
        by (cases "handler (last messages) messages st")
      show ?thesis
      proof (cases r1)
        case (Inl e)
        with False RunTool h Suc.prems show ?thesis by (simp add: Let_def)
      next
        case (Inr ev)
        with False RunTool h Suc.prems
        have "tool_loop handler llm n m1 s1 (evs @ [ev]) = (ms', st', evs', Finished)"
          by (simp add: Let_def)
        then show ?thesis by (rule Suc.IH)
      qed
    next
      case AskModel
      obtain items es where l: "llm messages = (items, es)" by (cases "llm messages")
      with False AskModel Suc.prems
      have "tool_loop handler llm n (messages @ items)
              (st\<lparr>llm_calls := llm_calls st @ [messages]\<rparr>) (evs @ es)
            = (ms', st', evs', Finished)"
        by (simp add: Let_def)
      then show ?thesis by (rule Suc.IH)
    qed
  qed
qed

text \<open>
  C2 (the code departs from it): in the earlier variant, with its ceiling of 5, the model
  asks for the tool twice and then answers. The answer is appended in the fifth
  iteration, the loop runs out without looking at it, and the apology is sent after the
  final assistant message (with the \<open>max_iterations\<close> record in the error log).
\<close>

theorem apology_after_final_answer:
  "(let r = call_and_run_tools_driver sample_loads sample_tools (scripted_llm 6) ''u''
              [system_message ''S'', user_message ''Show gaps''] 5 initial_state
    in snd (snd (snd r)) = Exhausted
       \<and> last (fst r) = sample_answer
       \<and> length (llm_calls (fst (snd r))) = 3
       \<and> last (fst (snd (snd r))) = StreamEvent ITEM_DONE (create_text_output_item APOLOGY ''u'')
       \<and> error_log (fst (snd r)) = [(''max_iterations'', ''Reached max iterations (5)'')])
   \<and> next_action sample_answer = Stop"
  by code_simp

text \<open>
  The same in \<open>agent.py\<close> with its ceiling of 10, on a conversation that ends with a
  pending tool call: the answer comes in the tenth iteration and the apology follows it.
\<close>

lemma apology_after_final_answer_primary:
  "(let r = call_and_run_tools sample_loads sample_tools (scripted_llm 12) ''u''
              [system_message ''S'', user_message ''Show gaps'', sample_call] 10 initial_state
    in snd (snd (snd r)) = Exhausted
       \<and> last (fst r) = sample_answer
       \<and> last (fst (snd (snd r))) = StreamEvent ITEM_DONE (create_text_output_item APOLOGY ''u'')
       \<and> error_log (fst (snd r)) = [(''max_iterations'', ''Reached max iterations (10)'')])"
  by code_simp

subsection \<open>The input guard\<close>

lemma is_safe_input_rejects:
  "(1000 < length s \<longrightarrow> is_safe_input s = (False, TOO_LONG))
   \<and> (list_ex (\<lambda>p. re_search p s) DANGEROUS_PATTERNS \<longrightarrow> \<not> fst (is_safe_input s))"
  by (auto simp: is_safe_input_def)

lemma predict_driver_rejects:
  assumes "\<not> fst (is_safe_input (last_user_query items))"
  shows "predict_driver to_cc SP w m notice nid loads tools llm uid items custom st
           = (log_error ''input_validation_failed'' (snd (is_safe_input (last_user_query items)))
                (st\<lparr>functions_called := []\<rparr>),
              ([create_text_output_item (CANNOT_PROCESS @ snd (is_safe_input (last_user_query items))) uid],
               custom))"
  using assms by (cases "is_safe_input (last_user_query items)") (simp add: predict_driver_def Let_def)


subsection \<open>\<open>predict\<close> and the input guard\<close>

text \<open>
  C8 (the code departs from it): the guard rejects the injection text, yet \<open>predict\<close> of
  \<open>agent.py\<close> never consults the guard: on the request carrying that text the loop runs,
  the model is called with it, and the model's answer is the response. (The \<open>predict\<close>
  of the earlier variant does reject first, see \<open>predict_driver_rejects\<close>.)
\<close>

theorem predict_ignores_input_guard:
  "fst (is_safe_input injection_text) = False
   \<and> llm_calls (fst (predict id ''S'' sample_loads sample_tools answering_llm ''u''
                       (DictRequest (Some [user_message injection_text]) None) initial_state))
       = [[system_message ''S'', user_message injection_text]]
   \<and> snd (predict id ''S'' sample_loads sample_tools answering_llm ''u''
                       (DictRequest (Some [user_message injection_text]) None) initial_state)
       = Inr ([sample_answer], None)"
  by code_simp

end
